theory Spec2Isabelle
  imports Complex_Main "HOL-Library.Char_ord" "HOL-Library.List_Lexorder"
begin

section \<open>JavaScript strings and arrays\<close>

text \<open>
  Strings are lists of 8-bit code units. \<open>split_on c s\<close> is \<^verbatim>\<open>s.split(c)\<close> for a
  one-character separator: it always returns at least one segment, and an empty segment
  for every separator at the start, at the end or next to another separator. The result
  of the recursive call is never empty (\<open>split_on_nonempty\<close> below), so the first branch
  of the \<open>case\<close> is never taken.
\<close>

fun split_on :: "char \<Rightarrow> string \<Rightarrow> string list" where
  "split_on c [] = [[]]"
| "split_on c (x # xs) =
     (if x = c then [] # split_on c xs
      else (case split_on c xs of
              [] \<Rightarrow> [[x]]
            | seg # segs \<Rightarrow> (x # seg) # segs))"

text \<open>\<^verbatim>\<open>parts.join(sep)\<close>.\<close>

fun join_with :: "string \<Rightarrow> string list \<Rightarrow> string" where
  "join_with sep [] = []"
| "join_with sep [x] = x"
| "join_with sep (x # y # ys) = x @ sep @ join_with sep (y # ys)"

text \<open>\<^verbatim>\<open>s.startsWith(p)\<close>.\<close>

definition startsWith :: "string \<Rightarrow> string \<Rightarrow> bool" where
  "startsWith s p = (take (length p) s = p)"

text \<open>
  \<^verbatim>\<open>xs.indexOf(x)\<close>: the first index holding \<open>x\<close>, or \<open>-1\<close>.
\<close>

fun indexOf :: "'a list \<Rightarrow> 'a \<Rightarrow> int" where
  "indexOf [] y = -1"
| "indexOf (x # xs) y =
     (if x = y then 0 else (let i = indexOf xs y in if i < 0 then -1 else i + 1))"

text \<open>
  \<^verbatim>\<open>xs[i]\<close>: reading outside the array gives \<^verbatim>\<open>undefined\<close>, here \<open>None\<close>.
\<close>

definition at_index :: "'a list \<Rightarrow> int \<Rightarrow> 'a option" where
  "at_index xs i = (if 0 \<le> i \<and> i < int (length xs) then Some (xs ! nat i) else None)"

text \<open>
  Truthiness of an optional string (\<^verbatim>\<open>string | undefined\<close>): \<^verbatim>\<open>undefined\<close> and
  the empty string are falsy.
\<close>

fun truthy_str :: "string option \<Rightarrow> bool" where
  "truthy_str None = False"
| "truthy_str (Some s) = (s \<noteq> [])"

section \<open>Identity resolver (tracer.ts, parseModelInfo)\<close>

record ModelInfo =
  provider :: string
  model :: string

text \<open>
  The guard \<^verbatim>\<open>if (provider)\<close> is the truthiness of an optional string. The
  destructuring \<^verbatim>\<open>[prov, ...rest] = model.split("/")\<close> is the \<open>case\<close> on the list of
  segments, whose empty branch is never taken.
\<close>

definition parseModelInfo :: "string \<Rightarrow> string option \<Rightarrow> ModelInfo" where
  "parseModelInfo mdl prov =
     (if truthy_str prov then
        \<lparr>provider = (case prov of Some p \<Rightarrow> p | None \<Rightarrow> []), model = mdl\<rparr>
      else if CHR ''/'' \<in> set mdl then
        (case split_on CHR ''/'' mdl of
           [] \<Rightarrow> \<lparr>provider = [], model = []\<rparr>
         | p # rest \<Rightarrow> \<lparr>provider = p, model = join_with ''/'' rest\<rparr>)
      else
        \<lparr>provider =
           (if startsWith mdl ''claude'' then ''anthropic''
            else if startsWith mdl ''gpt-'' \<or> startsWith mdl ''o1'' \<or> startsWith mdl ''o3''
              then ''openai''
            else if startsWith mdl ''gemini'' then ''google''
            else if startsWith mdl ''glm'' then ''zai''
            else if startsWith mdl ''kimi'' then ''kimi''
            else ''unknown''),
         model = mdl\<rparr>)"

section \<open>Regular expressions of the tag extractor\<close>

text \<open>
  The two patterns of \<^verbatim>\<open>extractTags\<close> use literal characters, greedy
  repetitions of a character class and one capture group. \<open>rx_match\<close> is the
  backtracking matcher for that fragment: \<open>Rep n cls\<close> first takes the longest run
  of \<open>cls\<close> and gives characters back one at a time, never keeping fewer than
  \<open>n\<close>; \<open>GOpen\<close> and \<open>GClose\<close> record the position where group 1 starts
  and ends. \<open>rx_search\<close> is \<^verbatim>\<open>s.match(re)?.[1]\<close>: the group of the leftmost match.
\<close>

datatype rx_item = Lit char | Rep nat "char \<Rightarrow> bool" | GOpen | GClose

fun first_some :: "'a option list \<Rightarrow> 'a option" where
  "first_some [] = None"
| "first_some (None # xs) = first_some xs"
| "first_some (Some x # xs) = Some x"

fun rx_match :: "rx_item list \<Rightarrow> string \<Rightarrow> nat \<Rightarrow> (nat \<times> nat) option" where
  "rx_match [] s pos = Some (0, 0)"
| "rx_match (Lit c # r) s pos =
     (case s of [] \<Rightarrow> None
      | x # xs \<Rightarrow> if x = c then rx_match r xs (Suc pos) else None)"
| "rx_match (Rep n cls # r) s pos =
     first_some
       (map (\<lambda>k. rx_match r (drop k s) (pos + k))
            (rev [n ..< Suc (length (takeWhile cls s))]))"
| "rx_match (GOpen # r) s pos =
     (case rx_match r s pos of None \<Rightarrow> None | Some (b, e) \<Rightarrow> Some (pos, e))"
| "rx_match (GClose # r) s pos =
     (case rx_match r s pos of None \<Rightarrow> None | Some (b, e) \<Rightarrow> Some (b, pos))"

fun rx_search :: "rx_item list \<Rightarrow> string \<Rightarrow> string option" where
  "rx_search re [] =
     (case rx_match re [] 0 of None \<Rightarrow> None | Some (b, e) \<Rightarrow> Some [])"
| "rx_search re (x # xs) =
     (case rx_match re (x # xs) 0 of
        None \<Rightarrow> rx_search re xs
      | Some (b, e) \<Rightarrow> Some (take (e - b) (drop b (x # xs))))"

text \<open>
  The class \<^verbatim>\<open>\s\<close> on 8-bit code units: tab, line feed, vertical tab, form feed,
  carriage return, space and no-break space. \<^verbatim>\<open>trim()\<close> strips the same characters.
\<close>

definition is_space :: "char \<Rightarrow> bool" where
  "is_space c = (c \<in> {CHR 0x09, CHR 0x0A, CHR 0x0B, CHR 0x0C, CHR 0x0D, CHR '' '', CHR 0xA0})"

definition trim :: "string \<Rightarrow> string" where
  "trim s = rev (dropWhile is_space (rev (dropWhile is_space s)))"

text \<open>\<^verbatim>\<open>/\[cron:[^\s]+\s+([^\(]+)\s*\(/\<close>\<close>

definition cron_rx :: "rx_item list" where
  "cron_rx =
     map Lit ''[cron:'' @
     [Rep 1 (\<lambda>c. \<not> is_space c), Rep 1 is_space,
      GOpen, Rep 1 (\<lambda>c. c \<noteq> CHR ''(''), GClose,
      Rep 0 is_space, Lit CHR ''('']"

text \<open>\<^verbatim>\<open>/\[Discord Guild (#[^\s]+)/\<close>\<close>

definition guild_rx :: "rx_item list" where
  "guild_rx =
     map Lit ''[Discord Guild '' @
     [GOpen, Lit CHR ''#'', Rep 1 (\<lambda>c. \<not> is_space c), GClose]"

section \<open>Tag extractor (tracer.ts, extractTags)\<close>

definition extractTags :: "string \<Rightarrow> string option \<Rightarrow> string list" where
  "extractTags sessionKey prompt =
     (let parts = split_on CHR '':'' sessionKey;
          tags =
            (if ''cron'' \<in> set parts then
               (let cronIdx = indexOf parts ''cron'' in
                if truthy_str (at_index parts (cronIdx + 1))
                then [''cron'', ''job:'' @ (case at_index parts (cronIdx + 1) of Some v \<Rightarrow> v | None \<Rightarrow> [])]
                else [''cron''])
             else if ''discord'' \<in> set parts then
               (let channelIdx = indexOf parts ''channel'' in
                if channelIdx \<ge> 0 \<and> truthy_str (at_index parts (channelIdx + 1))
                then [''discord'',
                      ''channel:'' @ (case at_index parts (channelIdx + 1) of Some v \<Rightarrow> v | None \<Rightarrow> [])]
                else [''discord''])
             else if ''telegram'' \<in> set parts then [''telegram'']
             else if ''slack'' \<in> set parts then [''slack'']
             else []);
          tags1 =
            (if truthy_str prompt \<and> ''cron'' \<in> set tags then
               (case rx_search cron_rx (case prompt of Some p \<Rightarrow> p | None \<Rightarrow> []) of
                  None \<Rightarrow> tags
                | Some g \<Rightarrow> if g \<noteq> [] then tags @ [''name:'' @ trim g] else tags)
             else tags);
          tags2 =
            (if truthy_str prompt \<and> ''discord'' \<in> set tags1 then
               (case rx_search guild_rx (case prompt of Some p \<Rightarrow> p | None \<Rightarrow> []) of
                  None \<Rightarrow> tags1
                | Some g \<Rightarrow> if g \<noteq> [] then tags1 @ [''guild:'' @ g] else tags1)
             else tags1)
      in tags2)"

section \<open>Clock readings and the ordering sequencer (tracer.ts)\<close>

text \<open>
  A \<^verbatim>\<open>Date\<close> is modelled by what its UTC getters return: \<open>year\<close> is
  \<^verbatim>\<open>getUTCFullYear()\<close>, \<open>month0\<close> is \<^verbatim>\<open>getUTCMonth()\<close> (January is 0), and
  so on down to \<open>millis\<close>, \<^verbatim>\<open>getUTCMilliseconds()\<close>. The clock has millisecond
  resolution. \<open>wf_date\<close> gives the ranges of the getters; \<open>date_before\<close> is
  chronological order, which on well-formed UTC fields is the lexicographic order of
  the fields.
\<close>

record date =
  year :: int
  month0 :: nat
  day :: nat
  hours :: nat
  minutes :: nat
  seconds :: nat
  millis :: nat

definition wf_date :: "date \<Rightarrow> bool" where
  "wf_date d =
     (month0 d < 12 \<and> 1 \<le> day d \<and> day d \<le> 31 \<and> hours d < 24 \<and> minutes d < 60 \<and>
      seconds d < 60 \<and> millis d < 1000)"

definition date_before :: "date \<Rightarrow> date \<Rightarrow> bool" where
  "date_before a b =
     (year a < year b \<or> year a = year b \<and>
     (month0 a < month0 b \<or> month0 a = month0 b \<and>
     (day a < day b \<or> day a = day b \<and>
     (hours a < hours b \<or> hours a = hours b \<and>
     (minutes a < minutes b \<or> minutes a = minutes b \<and>
     (seconds a < seconds b \<or> seconds a = seconds b \<and> millis a < millis b))))))"

text \<open>
  \<^verbatim>\<open>n.toString()\<close> for integers, and \<^verbatim>\<open>s.padStart(len, c)\<close>. \<open>digit_char n\<close> is
  the character of the decimal digit \<open>n\<close> (code 48 is the character 0).
\<close>

definition digit_char :: "nat \<Rightarrow> char" where
  "digit_char n = char_of (48 + n)"

function toString_nat :: "nat \<Rightarrow> string" where
  "toString_nat n =
     (if n < 10 then [digit_char n] else toString_nat (n div 10) @ [digit_char (n mod 10)])"
  by pat_completeness auto
termination
  by (relation "measure (\<lambda>n. n)") auto

declare toString_nat.simps [simp del]

definition toString_int :: "int \<Rightarrow> string" where
  "toString_int i = (if i < 0 then CHR ''-'' # toString_nat (nat (- i)) else toString_nat (nat i))"

definition padStart :: "nat \<Rightarrow> char \<Rightarrow> string \<Rightarrow> string" where
  "padStart len c s = replicate (len - length s) c @ s"

text \<open>The local helper \<^verbatim>\<open>pad\<close> of \<^verbatim>\<open>formatDottedOrderTime\<close>.\<close>

definition pad :: "nat \<Rightarrow> nat \<Rightarrow> string" where
  "pad n len = padStart len CHR ''0'' (toString_nat n)"

definition formatDottedOrderTime :: "date \<Rightarrow> string" where
  "formatDottedOrderTime d =
     toString_int (year d) @ pad (month0 d + 1) 2 @ pad (day d) 2 @ ''T'' @
     pad (hours d) 2 @ pad (minutes d) 2 @ pad (seconds d) 2 @ pad (millis d) 3 @ ''000Z''"

text \<open>
  \<^verbatim>\<open>makeDottedOrder(runId, parentDottedOrder?)\<close>; the clock reading of
  \<^verbatim>\<open>new Date()\<close> is the first argument.
\<close>

definition makeDottedOrder :: "date \<Rightarrow> string \<Rightarrow> string option \<Rightarrow> string" where
  "makeDottedOrder now runId parentDottedOrder =
     (let ts = formatDottedOrderTime now;
          cleanId = filter (\<lambda>c. c \<noteq> CHR ''-'') runId
      in if truthy_str parentDottedOrder
         then (case parentDottedOrder of Some p \<Rightarrow> p | None \<Rightarrow> []) @ ''.'' @ ts @ cleanId
         else ts @ cleanId)"

text \<open>
  \<^verbatim>\<open>date.toISOString()\<close>: four digits for the years 0 to 9999, a sign and six digits
  otherwise.
\<close>

definition toISOString :: "date \<Rightarrow> string" where
  "toISOString d =
     (if 0 \<le> year d \<and> year d \<le> 9999 then pad (nat (year d)) 4
      else (if year d < 0 then ''-'' else ''+'') @ pad (nat \<bar>year d\<bar>) 6) @
     ''-'' @ pad (month0 d + 1) 2 @ ''-'' @ pad (day d) 2 @ ''T'' @
     pad (hours d) 2 @ '':'' @ pad (minutes d) 2 @ '':'' @ pad (seconds d) 2 @ ''.'' @
     pad (millis d) 3 @ ''Z''"

section \<open>JavaScript numbers\<close>

text \<open>
  A number of the source is an IEEE 754 double. \<open>Fin r\<close> is the finite double of value
  \<open>r\<close>, a rational; the other three values are the two infinities and NaN. The two
  zeros are one value, \<open>Fin 0\<close>: the program adds numbers, compares them with 0, tests
  them for truth and serialises them, and none of these tells \<^verbatim>\<open>-0\<close> from \<^verbatim>\<open>0\<close>.
  A rational \<open>r\<close> is the value of a double when \<open>to_double r = Fin r\<close>; only such
  \<open>Fin r\<close> are numbers of the source.

  \<open>pow2 e\<close> is \<open>2\<close> to the power \<open>e\<close>. \<open>quantum_exp a\<close> is the exponent of the spacing of
  the doubles around a magnitude \<open>a > 0\<close>: \<open>e - 52\<close> where \<open>2^e \<le> a < 2^(e+1)\<close>, and
  \<open>-1074\<close> below the smallest normal number \<open>2^(-1022)\<close> (from \<open>2^1024\<close> on it is
  that of the largest doubles, \<open>971\<close>). \<open>to_double s\<close> is the rounding
  that ends every arithmetic operation: the exact result \<open>s\<close> goes to the nearest
  multiple of the spacing, a tie to the even multiple, and to an infinity when that
  multiple is \<open>2^1024\<close> or more. \<open>js_add\<close> is the operator \<^verbatim>\<open>+\<close> on two numbers,
  \<open>js_positive n\<close> the test \<^verbatim>\<open>n > 0\<close>.
\<close>

datatype jsnum = Fin rat | PInf | NInf | NaN

definition pow2 :: "int \<Rightarrow> rat" where
  "pow2 e = (if 0 \<le> e then 2 ^ nat e else 1 / 2 ^ nat (- e))"

definition quantum_exp :: "rat \<Rightarrow> int" where
  "quantum_exp a =
     (if a < pow2 (- 1022) then - 1074
      else (case find (\<lambda>e. a < pow2 (e + 1)) [- 1022 .. 1023] of
              Some e \<Rightarrow> e - 52
            | None \<Rightarrow> 971))"

definition round_half_even :: "rat \<Rightarrow> int" where
  "round_half_even t =
     (let f = \<lfloor>t\<rfloor>; d = t - of_int f
      in if 1 / 2 < d \<or> (d = 1 / 2 \<and> odd f) then f + 1 else f)"

definition to_double :: "rat \<Rightarrow> jsnum" where
  "to_double s =
     (if s = 0 then Fin 0
      else
        (let a = \<bar>s\<bar>;
             g = quantum_exp a;
             v = of_int (round_half_even (a / pow2 g)) * pow2 g
         in if pow2 1024 \<le> v then (if 0 < s then PInf else NInf)
            else Fin (if 0 < s then v else - v)))"

fun js_add :: "jsnum \<Rightarrow> jsnum \<Rightarrow> jsnum" where
  "js_add (Fin a) (Fin b) = to_double (a + b)"
| "js_add NaN m = NaN"
| "js_add n NaN = NaN"
| "js_add PInf NInf = NaN"
| "js_add NInf PInf = NaN"
| "js_add PInf m = PInf"
| "js_add n PInf = PInf"
| "js_add NInf m = NInf"
| "js_add n NInf = NInf"

fun js_positive :: "jsnum \<Rightarrow> bool" where
  "js_positive (Fin a) = (0 < a)"
| "js_positive PInf = True"
| "js_positive n = False"

section \<open>Untyped event payloads\<close>

text \<open>
  Values of type \<^verbatim>\<open>unknown\<close>. A number is a \<open>jsnum\<close>, falsy when it is zero or NaN;
  an object is the list of its properties, each key once. \<open>get_prop\<close> reads a
  property that is not built in (\<^verbatim>\<open>role\<close>, \<^verbatim>\<open>usage\<close>, \<^verbatim>\<open>input\<close>, ...): on
  anything but an object holding it the result is \<^verbatim>\<open>undefined\<close>. The source
  reads properties only of values it has found truthy, so the read itself never throws.
\<close>

datatype jsval =
    JUndefined
  | JNull
  | JBool bool
  | JNum jsnum
  | JStr string
  | JArr "jsval list"
  | JObj "(string \<times> jsval) list"

fun truthy :: "jsval \<Rightarrow> bool" where
  "truthy JUndefined = False"
| "truthy JNull = False"
| "truthy (JBool b) = b"
| "truthy (JNum n) = (n \<noteq> Fin 0 \<and> n \<noteq> NaN)"
| "truthy (JStr s) = (s \<noteq> [])"
| "truthy (JArr xs) = True"
| "truthy (JObj kvs) = True"

text \<open>\<^verbatim>\<open>typeof v === "object"\<close>\<close>

fun typeof_object :: "jsval \<Rightarrow> bool" where
  "typeof_object JNull = True"
| "typeof_object (JArr xs) = True"
| "typeof_object (JObj kvs) = True"
| "typeof_object v = False"

fun get_prop :: "jsval \<Rightarrow> string \<Rightarrow> jsval" where
  "get_prop (JObj kvs) k = (case map_of kvs k of None \<Rightarrow> JUndefined | Some v \<Rightarrow> v)"
| "get_prop v k = JUndefined"

text \<open>\<^verbatim>\<open>typeof v === "number" ? v : 0\<close>\<close>

fun number_or_zero :: "jsval \<Rightarrow> jsnum" where
  "number_or_zero (JNum n) = n"
| "number_or_zero v = Fin 0"

section \<open>Usage extraction (index.ts, extractUsageFromMessages)\<close>

record TokenUsage =
  u_prompt_tokens :: "jsnum option"
  u_completion_tokens :: "jsnum option"
  u_total_tokens :: "jsnum option"
  u_input_tokens :: "jsnum option"
  u_output_tokens :: "jsnum option"

text \<open>
  The loop \<^verbatim>\<open>for (let i = messages.length - 1; i >= 0; i--)\<close>: \<open>scan_messages ms n\<close>
  runs it from \<open>i = n - 1\<close> down to 0. The sums are the source's, added from left to
  right, each addition rounded: \<^verbatim>\<open>input + cacheRead + cacheWrite\<close> and
  \<^verbatim>\<open>input + output + cacheRead + cacheWrite\<close>.
\<close>

fun scan_messages :: "jsval list \<Rightarrow> nat \<Rightarrow> TokenUsage option" where
  "scan_messages ms 0 = None"
| "scan_messages ms (Suc i) =
     (let msg = ms ! i in
      if \<not> truthy msg \<or> \<not> typeof_object msg then scan_messages ms i
      else if get_prop msg ''role'' \<noteq> JStr ''assistant'' then scan_messages ms i
      else
        (let usage = get_prop msg ''usage'' in
         if \<not> truthy usage then scan_messages ms i
         else
           (let input = number_or_zero (get_prop usage ''input'');
                output = number_or_zero (get_prop usage ''output'');
                cacheRead = number_or_zero (get_prop usage ''cacheRead'');
                cacheWrite = number_or_zero (get_prop usage ''cacheWrite'')
            in Some \<lparr>u_prompt_tokens = None, u_completion_tokens = None,
                     u_total_tokens =
                       Some (js_add (js_add (js_add input output) cacheRead) cacheWrite),
                     u_input_tokens = Some (js_add (js_add input cacheRead) cacheWrite),
                     u_output_tokens = Some output\<rparr>)))"

fun extractUsageFromMessages :: "jsval \<Rightarrow> TokenUsage option" where
  "extractUsageFromMessages (JArr ms) = scan_messages ms (length ms)"
| "extractUsageFromMessages v = None"

section \<open>Records sent to the trace sink (types.ts)\<close>

datatype run_type = Chain | Tool | Llm

text \<open>
  The body of a queued operation: a \<^verbatim>\<open>LangSmithRun\<close> for a create, a
  \<^verbatim>\<open>Partial<LangSmithRun>\<close> for an update. A field that the source leaves out or
  sets to \<^verbatim>\<open>undefined\<close> is \<open>None\<close>. Timestamps are ISO strings.
\<close>

record LangSmithRun =
  run_id :: "string option"
  trace_id :: "string option"
  dotted_order :: "string option"
  run_name :: "string option"
  run_type :: "run_type option"
  inputs :: "jsval option"
  outputs :: "jsval option"
  parent_run_id :: "string option"
  start_time :: "string option"
  end_time :: "string option"
  error :: "string option"
  extra :: "jsval option"
  session_name :: "string option"
  prompt_tokens :: "jsnum option"
  completion_tokens :: "jsnum option"
  total_tokens :: "jsnum option"
  tags :: "string list option"

definition empty_run :: LangSmithRun where
  "empty_run =
     \<lparr>run_id = None, trace_id = None, dotted_order = None, run_name = None, run_type = None,
      inputs = None, outputs = None, parent_run_id = None, start_time = None, end_time = None,
      error = None, extra = None, session_name = None, prompt_tokens = None,
      completion_tokens = None, total_tokens = None, tags = None\<rparr>"

record PluginConfig =
  langsmithApiKey :: "string option"
  langsmithEndpoint :: string
  projectName :: string
  traceAgentTurns :: bool
  traceToolCalls :: bool
  traceEngramLlm :: bool
  batchIntervalMs :: int
  batchMaxSize :: int
  debug :: bool

section \<open>Batch submission queue (client.ts)\<close>

datatype http_method = POST | PATCH

record BatchOp =
  op_method :: http_method
  path :: string
  body :: LangSmithRun

text \<open>
  One call of \<^verbatim>\<open>fetch\<close>: the URL, the API key header and the two lists of the batch
  body; \<open>post\<close> and \<open>patch\<close> are \<open>None\<close> when the key is not set.
\<close>

record batch_request =
  url :: string
  api_key :: "string option"
  post :: "LangSmithRun list option"
  patch :: "LangSmithRun list option"

text \<open>
  The client: its queue, whether the interval timer is set, and the calls of
  \<^verbatim>\<open>fetch\<close> that have been issued and have not settled yet (\<open>in_flight\<close>, oldest
  first). \<open>in_flight\<close> is the only trace a network call leaves in the model.
\<close>

record LangSmithClient =
  queue :: "BatchOp list"
  timer :: bool
  endpoint :: string
  apiKey :: "string option"
  maxSize :: int
  in_flight :: "batch_request list"

text \<open>\<^verbatim>\<open>config.langsmithEndpoint.replace(/\/$/, "")\<close>\<close>

definition strip_trailing_slash :: "string \<Rightarrow> string" where
  "strip_trailing_slash s = (if s \<noteq> [] \<and> last s = CHR ''/'' then butlast s else s)"

definition new_client :: "PluginConfig \<Rightarrow> LangSmithClient" where
  "new_client cfg =
     \<lparr>queue = [], timer = True, endpoint = strip_trailing_slash (langsmithEndpoint cfg),
      apiKey = langsmithApiKey cfg, maxSize = batchMaxSize cfg, in_flight = []\<rparr>"

text \<open>The loop \<^verbatim>\<open>for (const op of batch)\<close> of \<^verbatim>\<open>flush\<close>.\<close>

fun split_batch ::
  "BatchOp list \<Rightarrow> LangSmithRun list \<Rightarrow> LangSmithRun list \<Rightarrow> LangSmithRun list \<times> LangSmithRun list"
where
  "split_batch [] creates updates = (creates, updates)"
| "split_batch (op # ops) creates updates =
     (if op_method op = POST then split_batch ops (creates @ [body op]) updates
      else split_batch ops creates (updates @ [body op]))"

text \<open>
  \<^verbatim>\<open>flush()\<close> up to its first \<^verbatim>\<open>await\<close>: everything that runs before control
  returns to the caller. The queue is emptied by \<^verbatim>\<open>splice(0)\<close> and the request is
  handed to \<^verbatim>\<open>fetch\<close>. Serialising the records modelled here cannot fail, so the
  \<^verbatim>\<open>catch\<close> branch is reached only when the call is rejected.
\<close>

definition flush :: "LangSmithClient \<Rightarrow> LangSmithClient" where
  "flush c =
     (if length (queue c) = 0 then c
      else
        (let batch = queue c;
             c1 = c\<lparr>queue := []\<rparr>;
             (creates, updates) = split_batch batch [] []
         in if length creates > 0 \<or> length updates > 0 then
              c1\<lparr>in_flight := in_flight c1 @
                   [\<lparr>url = endpoint c1 @ ''/runs/batch'', api_key = apiKey c1,
                     post = (if length creates > 0 then Some creates else None),
                     patch = (if length updates > 0 then Some updates else None)\<rparr>]\<rparr>
            else c1))"

text \<open>
  How a call of \<^verbatim>\<open>fetch\<close> settles: a response with its \<^verbatim>\<open>ok\<close> flag, status and
  body text (\<open>None\<close> when reading the text fails), or a rejection with a message.
\<close>

datatype fetch_result = Response bool nat "string option" | Rejected string

datatype log_line = Warn string | Debug string

text \<open>
  The rest of \<^verbatim>\<open>flush()\<close>, run when the call at position \<open>i\<close> of \<open>in_flight\<close>
  settles (calls may settle in any order): it only writes a log line. The batch of
  that call is not looked at again.
\<close>

definition flush_settled ::
  "nat \<Rightarrow> fetch_result \<Rightarrow> LangSmithClient \<Rightarrow> LangSmithClient \<times> log_line option"
where
  "flush_settled i r c =
     (if i < length (in_flight c) then
        (let req = in_flight c ! i in
         (c\<lparr>in_flight := take i (in_flight c) @ drop (Suc i) (in_flight c)\<rparr>,
          Some (case r of
                  Rejected msg \<Rightarrow> Warn (''batch request error: '' @ msg)
                | Response ok status txt \<Rightarrow>
                    if \<not> ok then
                      Warn (''batch request failed: '' @ toString_nat status @ '' '' @
                            take 200 (case txt of None \<Rightarrow> [] | Some t \<Rightarrow> t))
                    else
                      Debug (''batch sent: '' @
                             toString_nat (length (case post req of None \<Rightarrow> [] | Some xs \<Rightarrow> xs)) @
                             '' creates, '' @
                             toString_nat (length (case patch req of None \<Rightarrow> [] | Some xs \<Rightarrow> xs)) @
                             '' updates''))))
      else (c, None))"

definition createRun :: "LangSmithClient \<Rightarrow> LangSmithRun \<Rightarrow> LangSmithClient" where
  "createRun c run =
     (let c1 = c\<lparr>queue := queue c @ [\<lparr>op_method = POST, path = ''/runs'', body = run\<rparr>]\<rparr>
      in if int (length (queue c1)) \<ge> maxSize c1 then flush c1 else c1)"

definition updateRun :: "LangSmithClient \<Rightarrow> string \<Rightarrow> LangSmithRun \<Rightarrow> LangSmithClient" where
  "updateRun c runId p =
     (let c1 = c\<lparr>queue := queue c @ [\<lparr>op_method = PATCH, path = ''/runs/'' @ runId, body = p\<rparr>]\<rparr>
      in if int (length (queue c1)) \<ge> maxSize c1 then flush c1 else c1)"


section \<open>Run registry (tracer.ts, class Tracer)\<close>

record ActiveRun =
  runId :: string
  traceId :: string
  dottedOrder :: string
  parentRunId :: "string option"
  startTime :: string
  input :: "string option"

text \<open>
  The three maps of the tracer, its client and its configuration. Every operation below
  takes the state and returns the new one. The identifier returned by
  \<^verbatim>\<open>crypto.randomUUID()\<close> and each reading of the clock are arguments. The source
  wraps each operation in \<^verbatim>\<open>try/catch\<close>; on the typed inputs modelled here nothing
  throws. Lines written to the logger are left out.

  The object literal that an operation hands to the client is a definition of its own
  (\<open>agentRunCreate\<close>, \<open>agentRunPatch\<close>, \<open>toolRunCreate\<close>, \<open>toolRunPatch\<close>,
  \<open>llmRunCreate\<close>), placed before the operation that builds it.
\<close>

record Tracer =
  activeAgentRuns :: "string \<rightharpoonup> ActiveRun"
  activeToolRuns :: "string \<rightharpoonup> ActiveRun"
  sessionModels :: "string \<rightharpoonup> ModelInfo list"
  client :: LangSmithClient
  config :: PluginConfig

definition new_tracer :: "PluginConfig \<Rightarrow> Tracer" where
  "new_tracer cfg =
     \<lparr>activeAgentRuns = Map.empty, activeToolRuns = Map.empty, sessionModels = Map.empty,
      client = new_client cfg, config = cfg\<rparr>"

definition recordLlmCall :: "Tracer \<Rightarrow> string \<Rightarrow> string \<Rightarrow> string option \<Rightarrow> Tracer" where
  "recordLlmCall st sessionKey mdl prov =
     (let modelInfo = parseModelInfo mdl prov;
          models = (case sessionModels st sessionKey of None \<Rightarrow> [] | Some ms \<Rightarrow> ms)
      in st\<lparr>sessionModels := (sessionModels st)(sessionKey \<mapsto> models @ [modelInfo])\<rparr>)"

definition getSessionModelInfo :: "Tracer \<Rightarrow> string \<Rightarrow> ModelInfo option" where
  "getSessionModelInfo st sessionKey =
     (case sessionModels st sessionKey of
        None \<Rightarrow> None
      | Some models \<Rightarrow> if length models = 0 then None else Some (models ! (length models - 1)))"

text \<open>
  The filter of \<^verbatim>\<open>getAllSessionModels\<close>: a string is kept the first time it is
  seen; the second argument is the set \<^verbatim>\<open>seen\<close>.
\<close>

fun filter_unseen :: "string list \<Rightarrow> string set \<Rightarrow> string list" where
  "filter_unseen [] seen = []"
| "filter_unseen (s # ss) seen =
     (if s \<in> seen then filter_unseen ss seen else s # filter_unseen ss (insert s seen))"

definition getAllSessionModels :: "Tracer \<Rightarrow> string \<Rightarrow> string list" where
  "getAllSessionModels st sessionKey =
     (case sessionModels st sessionKey of
        None \<Rightarrow> []
      | Some models \<Rightarrow>
          if length models = 0 then []
          else filter_unseen (map (\<lambda>m. provider m @ ''/'' @ model m) models) {})"

subsection \<open>Turn spans\<close>

definition agentRunCreate ::
  "string \<Rightarrow> string \<Rightarrow> string \<Rightarrow> string list \<Rightarrow> string \<Rightarrow> string \<Rightarrow> string \<Rightarrow> LangSmithRun"
where
  "agentRunCreate rid stime dorder tgs project sessionKey prompt =
     empty_run
       \<lparr>run_id := Some rid,
        trace_id := Some rid,
        dotted_order := Some dorder,
        run_name := Some ''agent_turn'',
        run_type := Some Llm,
        inputs := Some (JObj [(''prompt'', JStr prompt)]),
        start_time := Some stime,
        session_name := Some project,
        tags := (if length tgs > 0 then Some tgs else None),
        extra := Some (JObj [(''metadata'', JObj [(''sessionKey'', JStr sessionKey)])])\<rparr>"

definition startAgentRun :: "string \<Rightarrow> date \<Rightarrow> date \<Rightarrow> Tracer \<Rightarrow> string \<Rightarrow> string \<Rightarrow> Tracer" where
  "startAgentRun uuid t_start t_order st sessionKey prompt =
     (let runId = uuid;
          startTime = toISOString t_start;
          dottedOrder = makeDottedOrder t_order runId None;
          tgs = extractTags sessionKey (Some prompt);
          st1 = st\<lparr>activeAgentRuns := (activeAgentRuns st)(sessionKey \<mapsto>
                  \<lparr>runId = runId, traceId = runId, dottedOrder = dottedOrder,
                   parentRunId = None, startTime = startTime, input = None\<rparr>)\<rparr>;
          run = agentRunCreate runId startTime dottedOrder tgs (projectName (config st))
                  sessionKey prompt
      in st1\<lparr>client := createRun (client st1) run\<rparr>)"

text \<open>\<^verbatim>\<open>a ?? b\<close> on an optional value with a default.\<close>

definition or_else :: "'a option \<Rightarrow> 'a \<Rightarrow> 'a" where
  "or_else v d = (case v of None \<Rightarrow> d | Some w \<Rightarrow> w)"

definition usage_object :: "string \<Rightarrow> string \<Rightarrow> jsnum \<Rightarrow> jsnum \<Rightarrow> jsnum \<Rightarrow> jsval" where
  "usage_object k1 k2 p c t = JObj [(k1, JNum p), (k2, JNum c), (''total_tokens'', JNum t)]"

text \<open>
  The normalisation of \<^verbatim>\<open>usage\<close> at the top of \<^verbatim>\<open>endAgentRun\<close>:
  \<^verbatim>\<open>promptTokens\<close>, \<^verbatim>\<open>completionTokens\<close>, \<^verbatim>\<open>totalTokens\<close>.
\<close>

definition usagePromptTokens :: "TokenUsage option \<Rightarrow> jsnum" where
  "usagePromptTokens usage =
     or_else (first_some [Option.bind usage u_prompt_tokens, Option.bind usage u_input_tokens])
             (Fin 0)"

definition usageCompletionTokens :: "TokenUsage option \<Rightarrow> jsnum" where
  "usageCompletionTokens usage =
     or_else (first_some [Option.bind usage u_completion_tokens,
                          Option.bind usage u_output_tokens]) (Fin 0)"

definition usageTotalTokens :: "TokenUsage option \<Rightarrow> jsnum" where
  "usageTotalTokens usage =
     or_else (Option.bind usage u_total_tokens)
             (js_add (usagePromptTokens usage) (usageCompletionTokens usage))"

definition agentRunPatch ::
  "date \<Rightarrow> ActiveRun \<Rightarrow> ModelInfo option \<Rightarrow> string list \<Rightarrow> string \<Rightarrow> jsval \<Rightarrow> bool \<Rightarrow>
   TokenUsage option \<Rightarrow> jsval \<Rightarrow> LangSmithRun"
where
  "agentRunPatch t_end active modelInfo allModels sessionKey messages success usage durationMs =
     (let promptTokens = usagePromptTokens usage;
          completionTokens = usageCompletionTokens usage;
          totalTokens = usageTotalTokens usage;
          usageMetadata =
            (if js_positive totalTokens
             then Some (usage_object ''input_tokens'' ''output_tokens''
                          promptTokens completionTokens totalTokens)
             else None);
          modelProps =
            (case modelInfo of
               None \<Rightarrow> []
             | Some m \<Rightarrow> [(''model'', JStr (model m)), (''provider'', JStr (provider m))]);
          p = empty_run
            \<lparr>run_id := Some (runId active),
             trace_id := Some (traceId active),
             dotted_order := Some (dottedOrder active),
             end_time := Some (toISOString t_end),
             outputs := Some (JObj
               ([(''messages'', messages), (''success'', JBool success)] @
                modelProps @
                (if length allModels > 1
                 then [(''all_models'', JArr (map JStr allModels))] else []) @
                (case usageMetadata of
                   None \<Rightarrow> [] | Some um \<Rightarrow> [(''usage_metadata'', um)]))),
             prompt_tokens := (if js_positive totalTokens then Some promptTokens else None),
             completion_tokens := (if js_positive totalTokens then Some completionTokens else None),
             total_tokens := (if js_positive totalTokens then Some totalTokens else None),
             extra := Some (JObj
               ([(''metadata'', JObj
                   ([(''sessionKey'', JStr sessionKey), (''durationMs'', durationMs)] @
                    modelProps @
                    (if length allModels > 0
                     then [(''models_used'', JArr (map JStr allModels))] else [])))] @
                (case usageMetadata of
                   None \<Rightarrow> []
                 | Some um \<Rightarrow>
                     [(''usage'', usage_object ''prompt_tokens'' ''completion_tokens''
                                   promptTokens completionTokens totalTokens)]))),
             tags := Some
               (case modelInfo of
                  None \<Rightarrow> []
                | Some m \<Rightarrow> [''provider:'' @ provider m, ''model:'' @ model m])\<rparr>
      in if \<not> success then p\<lparr>error := Some ''Agent turn failed''\<rparr> else p)"

definition endAgentRun ::
  "date \<Rightarrow> Tracer \<Rightarrow> string \<Rightarrow> jsval \<Rightarrow> bool \<Rightarrow> TokenUsage option \<Rightarrow> jsval \<Rightarrow> Tracer"
where
  "endAgentRun t_end st sessionKey messages success usage durationMs =
     (case activeAgentRuns st sessionKey of
        None \<Rightarrow> st
      | Some active \<Rightarrow>
          (let st1 = st\<lparr>activeAgentRuns := (activeAgentRuns st)(sessionKey := None)\<rparr>;
               modelInfo = getSessionModelInfo st1 sessionKey;
               allModels = getAllSessionModels st1 sessionKey;
               st2 = st1\<lparr>sessionModels := (sessionModels st1)(sessionKey := None)\<rparr>;
               p = agentRunPatch t_end active modelInfo allModels sessionKey messages success
                     usage durationMs
           in st2\<lparr>client := updateRun (client st2) (runId active) p\<rparr>))"

subsection \<open>Tool spans\<close>



definition toolRunPatch :: "date \<Rightarrow> ActiveRun \<Rightarrow> jsval \<Rightarrow> string option \<Rightarrow> LangSmithRun" where
  "toolRunPatch t_end active res err =
     (let p = empty_run
            \<lparr>run_id := Some (runId active),
             trace_id := Some (traceId active),
             dotted_order := Some (dottedOrder active),
             end_time := Some (toISOString t_end),
             outputs := Some (JObj [(''result'', res)])\<rparr>
      in if truthy_str err then p\<lparr>error := err\<rparr> else p)"

definition endToolRun :: "date \<Rightarrow> Tracer \<Rightarrow> string \<Rightarrow> jsval \<Rightarrow> string option \<Rightarrow> Tracer" where
  "endToolRun t_end st toolCallId res err =
     (case activeToolRuns st toolCallId of
        None \<Rightarrow> st
      | Some active \<Rightarrow>
          (let st1 = st\<lparr>activeToolRuns := (activeToolRuns st)(toolCallId := None)\<rparr>;
               p = toolRunPatch t_end active res err
           in st1\<lparr>client := updateRun (client st1) (runId active) p\<rparr>))"

subsection \<open>Model-call events\<close>

datatype llm_kind = Llm_start | Llm_end | Llm_error

record LlmTokenUsage =
  tu_input :: "jsnum option"
  tu_output :: "jsnum option"
  tu_total :: "jsnum option"

record LlmTraceEvent =
  ev_kind :: llm_kind
  ev_traceId :: string
  ev_model :: string
  ev_operation :: string
  ev_input :: "string option"
  ev_output :: "string option"
  ev_durationMs :: "jsnum option"
  ev_error :: "string option"
  ev_tokenUsage :: "LlmTokenUsage option"

definition llmRunCreate ::
  "LlmTraceEvent \<Rightarrow> string \<Rightarrow> string \<Rightarrow> string \<Rightarrow> string \<Rightarrow> string \<Rightarrow> LangSmithRun"
where
  "llmRunCreate event stime etime dorder inputText project =
     (let promptTokens = or_else (Option.bind (ev_tokenUsage event) tu_input) (Fin 0);
          completionTokens = or_else (Option.bind (ev_tokenUsage event) tu_output) (Fin 0);
          totalTokens = or_else (Option.bind (ev_tokenUsage event) tu_total)
                                (js_add promptTokens completionTokens);
          usageMetadata =
            (if js_positive totalTokens
             then Some (usage_object ''input_tokens'' ''output_tokens''
                          promptTokens completionTokens totalTokens)
             else None)
      in empty_run
           \<lparr>run_id := Some (ev_traceId event),
            trace_id := Some (ev_traceId event),
            dotted_order := Some dorder,
            run_name := Some (''engram:'' @ ev_operation event),
            run_type := Some Llm,
            inputs := Some (JObj [(''prompt'', JStr inputText)]),
            outputs := Some (JObj
              ((if truthy_str (ev_output event)
                then [(''completion'', JStr (or_else (ev_output event) []))] else []) @
               (case usageMetadata of
                  None \<Rightarrow> [] | Some um \<Rightarrow> [(''usage_metadata'', um)]))),
            start_time := Some stime,
            end_time := Some etime,
            error := ev_error event,
            session_name := Some project,
            prompt_tokens := (if js_positive totalTokens then Some promptTokens else None),
            completion_tokens := (if js_positive totalTokens then Some completionTokens else None),
            total_tokens := (if js_positive totalTokens then Some totalTokens else None),
            extra := Some (JObj
              ([(''metadata'', JObj
                  [(''model'', JStr (ev_model event)),
                   (''operation'', JStr (ev_operation event)),
                   (''durationMs'',
                    (case ev_durationMs event of None \<Rightarrow> JUndefined | Some d \<Rightarrow> JNum d))])] @
               (case usageMetadata of
                  None \<Rightarrow> []
                | Some um \<Rightarrow>
                    [(''usage'', usage_object ''prompt_tokens'' ''completion_tokens''
                                  promptTokens completionTokens totalTokens)])))\<rparr>)"

text \<open>
  \<^verbatim>\<open>traceLlmCall\<close>. On a start event the clock is read for the ordering key and then
  for the start time; on a terminal event it is read for the start time (when no start
  was stored), for the end time and for the ordering key (when no start was stored).
  The event has no session key, and the operation does not touch \<open>sessionModels\<close>.
\<close>

definition traceLlmCall :: "date \<Rightarrow> date \<Rightarrow> date \<Rightarrow> Tracer \<Rightarrow> LlmTraceEvent \<Rightarrow> Tracer" where
  "traceLlmCall t_start t_end t_order st event =
     (if ev_kind event = Llm_start then
        (let dottedOrder = makeDottedOrder t_order (ev_traceId event) None in
         st\<lparr>activeToolRuns := (activeToolRuns st)(''llm:'' @ ev_traceId event \<mapsto>
              \<lparr>runId = ev_traceId event, traceId = ev_traceId event, dottedOrder = dottedOrder,
               parentRunId = None, startTime = toISOString t_start, input = ev_input event\<rparr>)\<rparr>)
      else
        (let startEntry = activeToolRuns st (''llm:'' @ ev_traceId event);
             st1 = (case startEntry of
                      None \<Rightarrow> st
                    | Some e \<Rightarrow>
                        st\<lparr>activeToolRuns := (activeToolRuns st)(''llm:'' @ ev_traceId event := None)\<rparr>);
             startTime = or_else (map_option ActiveRun.startTime startEntry) (toISOString t_start);
             endTime = toISOString t_end;
             dottedOrder = or_else (map_option ActiveRun.dottedOrder startEntry)
                                   (makeDottedOrder t_order (ev_traceId event) None);
             inputText = or_else (first_some [Option.bind startEntry ActiveRun.input, ev_input event])
                                 ''(not captured)'';
             run = llmRunCreate event startTime endTime dottedOrder inputText (projectName (config st))
         in st1\<lparr>client := createRun (client st1) run\<rparr>))"

section \<open>Hook handlers (index.ts, register)\<close>

text \<open>
  The callbacks that \<^verbatim>\<open>register\<close> installs. It installs none when the configuration
  has no API key, the two turn hooks only when \<^verbatim>\<open>traceAgentTurns\<close> is set, the two
  tool hooks only when \<^verbatim>\<open>traceToolCalls\<close> is set and the model-call callback only
  when \<^verbatim>\<open>traceEngramLlm\<close> is set. No callback calls \<^verbatim>\<open>recordLlmCall\<close>.

  \<open>session_of\<close> is \<^verbatim>\<open>(ctx?.sessionKey as string) ?? "default"\<close>.
\<close>

definition session_of :: "string option \<Rightarrow> string" where
  "session_of ctxSessionKey = or_else ctxSessionKey ''default''"

text \<open>The turn-start event carries \<^verbatim>\<open>prompt\<close>.\<close>

definition on_before_agent_start ::
  "string \<Rightarrow> date \<Rightarrow> date \<Rightarrow> Tracer \<Rightarrow> string option \<Rightarrow> string option \<Rightarrow> Tracer"
where
  "on_before_agent_start uuid t_start t_order st prompt ctxSessionKey =
     (let sessionKey = session_of ctxSessionKey in
      if truthy_str prompt
      then startAgentRun uuid t_start t_order st sessionKey (or_else prompt [])
      else st)"

record agent_end_event =
  ae_messages :: jsval
  ae_success :: jsval
  ae_durationMs :: jsval

definition on_agent_end :: "date \<Rightarrow> Tracer \<Rightarrow> agent_end_event \<Rightarrow> string option \<Rightarrow> Tracer" where
  "on_agent_end t_end st event ctxSessionKey =
     (let sessionKey = session_of ctxSessionKey;
          durationMs = ae_durationMs event;
          usage = extractUsageFromMessages (ae_messages event)
      in endAgentRun t_end st sessionKey (ae_messages event) (truthy (ae_success event))
           usage durationMs)"

text \<open>
  The event object of the tool hooks. \<^verbatim>\<open>before_tool_call\<close> writes the run
  identifier into \<^verbatim>\<open>_langsmithToolRunId\<close>; \<^verbatim>\<open>after_tool_call\<close> reads it back.
\<close>

record tool_event =
  toolName :: string
  params :: jsval
  langsmithToolRunId :: "string option"
  toolCallId :: "string option"
  result :: jsval
  tool_error :: "string option"


definition on_after_tool_call :: "date \<Rightarrow> Tracer \<Rightarrow> tool_event \<Rightarrow> Tracer" where
  "on_after_tool_call t_end st event =
     (let runId = first_some [langsmithToolRunId event, toolCallId event] in
      if truthy_str runId
      then endToolRun t_end st (or_else runId []) (result event) (tool_error event)
      else st)"

definition on_engram_trace :: "date \<Rightarrow> date \<Rightarrow> date \<Rightarrow> Tracer \<Rightarrow> LlmTraceEvent \<Rightarrow> Tracer" where
  "on_engram_trace t_start t_end t_order st event = traceLlmCall t_start t_end t_order st event"

section \<open>The specification's wording, and definitions for the proofs\<close>

text \<open>
  The identity resolver as the specification words it, with rule 1 read for a non-empty
  provider: the prefix table is searched in order, and the model string is split at its
  first separator.
\<close>

definition provider_table :: "(string \<times> string) list" where
  "provider_table =
     [(''claude'', ''anthropic''), (''gpt-'', ''openai''), (''o1'', ''openai''),
      (''o3'', ''openai''), (''gemini'', ''google''), (''glm'', ''zai''), (''kimi'', ''kimi'')]"

definition infer_provider :: "string \<Rightarrow> string" where
  "infer_provider mdl =
     (case find (\<lambda>(pre, prov). startsWith mdl pre) provider_table of
        None \<Rightarrow> ''unknown''
      | Some (pre, prov) \<Rightarrow> prov)"

definition resolve_without_provider :: "string \<Rightarrow> ModelInfo" where
  "resolve_without_provider mdl =
     (if CHR ''/'' \<in> set mdl
      then \<lparr>provider = takeWhile (\<lambda>c. c \<noteq> CHR ''/'') mdl,
            model = tl (dropWhile (\<lambda>c. c \<noteq> CHR ''/'') mdl)\<rparr>
      else \<lparr>provider = infer_provider mdl, model = mdl\<rparr>)"

definition resolve_spec :: "string \<Rightarrow> string option \<Rightarrow> ModelInfo" where
  "resolve_spec mdl prov =
     (case prov of
        None \<Rightarrow> resolve_without_provider mdl
      | Some p \<Rightarrow> if p = [] then resolve_without_provider mdl else \<lparr>provider = p, model = mdl\<rparr>)"

text \<open>
  The two halves of \<^verbatim>\<open>extractTags\<close>, named for the proofs: \<open>source_tags\<close> is the
  chain of tests on the segments of the session key, \<open>prompt_tags\<close> what the two
  patterns on the prompt add to it.
\<close>

definition source_tags :: "string list \<Rightarrow> string list" where
  "source_tags parts =
            (if ''cron'' \<in> set parts then
               (let cronIdx = indexOf parts ''cron'' in
                if truthy_str (at_index parts (cronIdx + 1))
                then [''cron'', ''job:'' @ (case at_index parts (cronIdx + 1) of Some v \<Rightarrow> v | None \<Rightarrow> [])]
                else [''cron''])
             else if ''discord'' \<in> set parts then
               (let channelIdx = indexOf parts ''channel'' in
                if channelIdx \<ge> 0 \<and> truthy_str (at_index parts (channelIdx + 1))
                then [''discord'',
                      ''channel:'' @ (case at_index parts (channelIdx + 1) of Some v \<Rightarrow> v | None \<Rightarrow> [])]
                else [''discord''])
             else if ''telegram'' \<in> set parts then [''telegram'']
             else if ''slack'' \<in> set parts then [''slack'']
             else [])"

definition prompt_tags :: "string option \<Rightarrow> string list \<Rightarrow> string list" where
  "prompt_tags prompt tgs =
    (if truthy_str prompt \<and> ''cron'' \<in> set tgs then
               (case rx_search cron_rx (case prompt of Some p \<Rightarrow> p | None \<Rightarrow> []) of
                  None \<Rightarrow> []
                | Some g \<Rightarrow> if g \<noteq> [] then [''name:'' @ trim g] else [])
             else []) @
    (if truthy_str prompt \<and> ''discord'' \<in> set tgs then
               (case rx_search guild_rx (case prompt of Some p \<Rightarrow> p | None \<Rightarrow> []) of
                  None \<Rightarrow> []
                | Some g \<Rightarrow> if g \<noteq> [] then [''guild:'' @ g] else [])
             else [])"

text \<open>
  Usage of a turn as the specification words it: a message carries usage when it is an
  object whose role is \<open>assistant\<close> and whose \<open>usage\<close> is truthy;
  \<open>last_assistant_usage\<close> is the usage object of the last message of the list that
  carries one.

  The canonical form of the specification is over token counts, which are integers:
  \<open>count_of n\<close> is the integer that the number \<open>n\<close> is (0 when it is none),
  \<open>usage_field usage k\<close> the number in field \<open>k\<close> of a usage object (a field that is not a
  number counts 0), and \<open>normalize_usage\<close> the canonical form of a
  \<open>{input, output, cacheRead, cacheWrite}\<close> object, in the arithmetic of the integers.
  \<open>exact_counts usage\<close> says that the four fields are integers whose magnitudes add up
  to less than \<open>2^53\<close>; every sum of some of them is then an integer below \<open>2^53\<close> in
  magnitude, which a double holds exactly.
\<close>

definition carries_usage :: "jsval \<Rightarrow> bool" where
  "carries_usage msg =
     (truthy msg \<and> typeof_object msg \<and> get_prop msg ''role'' = JStr ''assistant'' \<and>
      truthy (get_prop msg ''usage''))"

definition last_assistant_usage :: "jsval \<Rightarrow> jsval option" where
  "last_assistant_usage messages =
     (case messages of
        JArr ms \<Rightarrow>
          (let hits = filter carries_usage ms in
           if hits = [] then None
           else Some (get_prop (last hits) ''usage''))
      | _ \<Rightarrow> None)"

definition is_integer :: "jsnum \<Rightarrow> bool" where
  "is_integer n = (case n of Fin r \<Rightarrow> of_int \<lfloor>r\<rfloor> = r | _ \<Rightarrow> False)"

definition count_of :: "jsnum \<Rightarrow> int" where
  "count_of n = (case n of Fin r \<Rightarrow> \<lfloor>r\<rfloor> | _ \<Rightarrow> 0)"

definition usage_field :: "jsval \<Rightarrow> string \<Rightarrow> jsnum" where
  "usage_field usage k = number_or_zero (get_prop usage k)"

definition exact_counts :: "jsval \<Rightarrow> bool" where
  "exact_counts usage =
     (is_integer (usage_field usage ''input'') \<and>
      is_integer (usage_field usage ''output'') \<and>
      is_integer (usage_field usage ''cacheRead'') \<and>
      is_integer (usage_field usage ''cacheWrite'') \<and>
      \<bar>count_of (usage_field usage ''input'')\<bar> + \<bar>count_of (usage_field usage ''output'')\<bar> +
      \<bar>count_of (usage_field usage ''cacheRead'')\<bar> + \<bar>count_of (usage_field usage ''cacheWrite'')\<bar>
        < 2 ^ 53)"

record normalized_usage =
  promptTokens :: int
  completionTokens :: int
  totalTokens :: int

definition normalize_usage :: "jsval \<Rightarrow> normalized_usage" where
  "normalize_usage usage =
     (let inp = count_of (usage_field usage ''input'');
          out = count_of (usage_field usage ''output'');
          cacheRead = count_of (usage_field usage ''cacheRead'');
          cacheWrite = count_of (usage_field usage ''cacheWrite'');
          pt = inp + cacheRead + cacheWrite
      in \<lparr>promptTokens = pt, completionTokens = out, totalTokens = pt + out\<rparr>)"

text \<open>
  The \<^verbatim>\<open>TokenUsage\<close> object that holds a canonical form, and the one that the loop
  of \<^verbatim>\<open>extractUsageFromMessages\<close> builds from the usage object it stops at.
\<close>

definition as_token_usage :: "normalized_usage \<Rightarrow> TokenUsage" where
  "as_token_usage n =
     \<lparr>u_prompt_tokens = None, u_completion_tokens = None,
      u_total_tokens = Some (Fin (of_int (totalTokens n))),
      u_input_tokens = Some (Fin (of_int (promptTokens n))),
      u_output_tokens = Some (Fin (of_int (completionTokens n)))\<rparr>"

definition usage_of_object :: "jsval \<Rightarrow> TokenUsage" where
  "usage_of_object usage =
     \<lparr>u_prompt_tokens = None, u_completion_tokens = None,
      u_total_tokens =
        Some (js_add (js_add (js_add (usage_field usage ''input'') (usage_field usage ''output''))
                             (usage_field usage ''cacheRead''))
                     (usage_field usage ''cacheWrite'')),
      u_input_tokens =
        Some (js_add (js_add (usage_field usage ''input'') (usage_field usage ''cacheRead''))
                     (usage_field usage ''cacheWrite'')),
      u_output_tokens = Some (usage_field usage ''output'')\<rparr>"

text \<open>
  The request that one flush sends for a queue, as the specification words it: the
  bodies of all queued creates and of all queued updates, each list in queue order, as one
  batched request.
\<close>

definition batch_of :: "LangSmithClient \<Rightarrow> batch_request" where
  "batch_of c =
     (let creates = map body (filter (\<lambda>b. op_method b = POST) (queue c));
          updates = map body (filter (\<lambda>b. op_method b \<noteq> POST) (queue c))
      in \<lparr>url = endpoint c @ ''/runs/batch'', api_key = apiKey c,
          post = (if creates = [] then None else Some creates),
          patch = (if updates = [] then None else Some updates)\<rparr>)"

text \<open>
  The decimal digits of a number in a field of fixed width, most significant first:
  what \<open>pad\<close> gives for a number that fits the width.
\<close>

fun fixed_digits :: "nat \<Rightarrow> nat \<Rightarrow> string" where
  "fixed_digits 0 n = []"
| "fixed_digits (Suc k) n = fixed_digits k (n div 10) @ [digit_char (n mod 10)]"

section \<open>Example inputs\<close>

text \<open>
  Inputs for the worked examples: a configuration, clock readings, a tracer with one open
  Slack turn, one with an open cron turn and one where two model identities have been
  recorded for the cron turn, message lists (one with an input count of
  \<open>2^53 = 9007199254740992\<close>), a tool event, a client with two queued records, a
  model-call event, and the key of the Slack turn. Then the start of that model call and
  the tracer that has handled it; the tool call of the examples started inside the Slack
  turn and started on a tracer with no open turn, and a tool-end event that is another
  object with the same \<^verbatim>\<open>toolCallId\<close>.
\<close>

definition example_config :: PluginConfig where
  "example_config =
     \<lparr>langsmithApiKey = Some ''lsv2_pt_key'', langsmithEndpoint = ''https://api.smith.langchain.com'',
      projectName = ''openclaw'', traceAgentTurns = True, traceToolCalls = True,
      traceEngramLlm = True, batchIntervalMs = 1000, batchMaxSize = 20, debug = False\<rparr>"

definition example_date :: date where
  "example_date = \<lparr>year = 2026, month0 = 1, day = 7, hours = 12, minutes = 30, seconds = 15, millis = 250\<rparr>"

definition example_open_turn :: Tracer where
  "example_open_turn =
     on_before_agent_start ''6f1c-r1'' example_date example_date (new_tracer example_config)
       (Some ''hello'') (Some ''agent:main:slack:C42'')"

definition example_messages :: jsval where
  "example_messages =
     JArr [JObj [(''role'', JStr ''user''), (''content'', JStr ''hello'')],
           JObj [(''role'', JStr ''assistant''),
                 (''usage'', JObj [(''input'', JNum (Fin 100)), (''output'', JNum (Fin 50))])],
           JObj [(''role'', JStr ''user''), (''content'', JStr ''more'')],
           JObj [(''role'', JStr ''assistant''),
                 (''usage'', JObj [(''input'', JNum (Fin 10)), (''output'', JNum (Fin 5)),
                                   (''cacheRead'', JNum (Fin 2)), (''cacheWrite'', JNum (Fin 1))])],
           JObj [(''role'', JStr ''assistant''), (''content'', JStr ''done'')]]"




definition example_cron_turn :: Tracer where
  "example_cron_turn =
     on_before_agent_start ''0a2b-r7'' example_date example_date (new_tracer example_config)
       (Some ''run the nightly job'') (Some ''agent:generalist:cron:96b7'')"

definition example_cron_turn_models :: Tracer where
  "example_cron_turn_models =
     recordLlmCall
       (recordLlmCall example_cron_turn ''agent:generalist:cron:96b7'' ''gpt-5.2'' None)
       ''agent:generalist:cron:96b7'' ''anthropic/claude-opus-4-5'' None"


definition example_client :: LangSmithClient where
  "example_client =
     updateRun
       (createRun (new_client example_config)
          (empty_run\<lparr>run_id := Some ''6f1c-r1'', run_name := Some ''agent_turn''\<rparr>))
       ''6f1c-r1'' (empty_run\<lparr>run_id := Some ''6f1c-r1'', end_time := Some ''later''\<rparr>)"

definition example_llm_event :: LlmTraceEvent where
  "example_llm_event =
     \<lparr>ev_kind = Llm_end, ev_traceId = ''e-41'', ev_model = ''anthropic/claude-opus-4-5'',
      ev_operation = ''extract'', ev_input = Some ''summarise the notes'',
      ev_output = Some ''done'', ev_durationMs = Some (Fin 800), ev_error = None,
      ev_tokenUsage =
        Some \<lparr>tu_input = Some (Fin 100), tu_output = Some (Fin 20), tu_total = None\<rparr>\<rparr>"

definition example_later_date :: date where
  "example_later_date = example_date\<lparr>millis := 251\<rparr>"

definition example_llm_start_event :: LlmTraceEvent where
  "example_llm_start_event =
     \<lparr>ev_kind = Llm_start, ev_traceId = ''e-41'', ev_model = ''anthropic/claude-opus-4-5'',
      ev_operation = ''extract'', ev_input = Some ''summarise the notes'',
      ev_output = None, ev_durationMs = None, ev_error = None, ev_tokenUsage = None\<rparr>"

definition example_pending_call :: Tracer where
  "example_pending_call =
     on_engram_trace example_date example_date example_date example_open_turn
       example_llm_start_event"




definition example_parent_key :: string where
  "example_parent_key = makeDottedOrder example_date ''6f1c-r1'' None"

definition last_ms_of_9999 :: date where
  "last_ms_of_9999 =
     \<lparr>year = 9999, month0 = 11, day = 31, hours = 23, minutes = 59, seconds = 59, millis = 999\<rparr>"

definition first_ms_of_10000 :: date where
  "first_ms_of_10000 =
     \<lparr>year = 10000, month0 = 0, day = 1, hours = 0, minutes = 0, seconds = 0, millis = 0\<rparr>"

section \<open>Properties of the string helpers\<close>

lemma split_on_nonempty: "split_on c s \<noteq> []"
  by (induction s) (auto split: list.splits)

lemma split_on_unfold:
  "split_on c s =
     takeWhile (\<lambda>x. x \<noteq> c) s #
     (if c \<in> set s then split_on c (tl (dropWhile (\<lambda>x. x \<noteq> c) s)) else [])"
proof (induction s)
  case Nil
  then show ?case by simp
next
  case (Cons x xs)
  then show ?case by (cases "split_on c xs") (auto simp: split_on_nonempty)
qed

lemma join_split: "join_with [c] (split_on c s) = s"
proof (induction s)
  case Nil
  then show ?case by simp
next
  case (Cons x xs)
  show ?case
  proof (cases "x = c")
    case True
    then show ?thesis using Cons
      by (cases "split_on c xs") (auto simp: split_on_nonempty)
  next
    case False
    then show ?thesis using Cons
      by (cases "split_on c xs"; cases "tl (split_on c xs)") (auto simp: split_on_nonempty)
  qed
qed

lemma join_tl_split:
  assumes "c \<in> set s"
  shows "join_with [c] (tl (split_on c s)) = tl (dropWhile (\<lambda>x. x \<noteq> c) s)"
proof -
  have "tl (split_on c s) = split_on c (tl (dropWhile (\<lambda>x. x \<noteq> c) s))"
    using assms by (subst split_on_unfold) simp
  then show ?thesis by (simp add: join_split)
qed

section \<open>Identity resolution\<close>

lemma parse_split:
  assumes "CHR ''/'' \<in> set mdl"
  shows "(case split_on CHR ''/'' mdl of
           [] \<Rightarrow> \<lparr>provider = [], model = []\<rparr>
         | p # rest \<Rightarrow> \<lparr>provider = p, model = join_with ''/'' rest\<rparr>)
       = \<lparr>provider = takeWhile (\<lambda>c. c \<noteq> CHR ''/'') mdl,
            model = tl (dropWhile (\<lambda>c. c \<noteq> CHR ''/'') mdl)\<rparr>"
proof -
  obtain p rest where pr: "split_on CHR ''/'' mdl = p # rest"
    using split_on_nonempty by (cases "split_on CHR ''/'' mdl") auto
  have "p = takeWhile (\<lambda>c. c \<noteq> CHR ''/'') mdl"
    using pr by (subst (asm) split_on_unfold) simp
  moreover have "join_with ''/'' rest = tl (dropWhile (\<lambda>c. c \<noteq> CHR ''/'') mdl)"
    using join_tl_split [OF assms] pr by simp
  ultimately show ?thesis by (simp add: pr)
qed

text \<open>
  C2, as the code has it: \<open>parseModelInfo\<close> is a total function that agrees, on every
  model string and optional provider, with the precedence of the specification read
  for a non-empty provider. A provider that is absent or the empty string is passed
  over; then a model string with a \<open>/\<close> is split at the first one, the provider being
  what precedes it and the model everything after it; otherwise the provider comes from
  the first matching row of the prefix table, or is \<open>unknown\<close>, and the model string is
  unchanged.
\<close>

theorem parseModelInfo_precedence: "parseModelInfo mdl prov = resolve_spec mdl prov"
proof (cases "truthy_str prov")
  case True
  then show ?thesis
    by (cases prov) (auto simp: parseModelInfo_def resolve_spec_def)
next
  case False
  then have r: "resolve_spec mdl prov = resolve_without_provider mdl"
    by (cases prov) (auto simp: resolve_spec_def)
  show ?thesis
  proof (cases "CHR ''/'' \<in> set mdl")
    case True
    then show ?thesis using False r parse_split [OF True]
      by (simp add: parseModelInfo_def resolve_without_provider_def)
  next
    case nosep: False
    then show ?thesis using False r
      by (simp add: parseModelInfo_def resolve_without_provider_def infer_provider_def
          provider_table_def)
  qed
qed

text \<open>The examples of the specification, and an explicit provider next to a model with separators.\<close>

theorem parseModelInfo_precedence_witness:
  "parseModelInfo ''anthropic/claude-opus-4-5'' None
     = \<lparr>provider = ''anthropic'', model = ''claude-opus-4-5''\<rparr>
   \<and> parseModelInfo ''gpt-5.2'' None = \<lparr>provider = ''openai'', model = ''gpt-5.2''\<rparr>
   \<and> parseModelInfo ''mystery-model'' None = \<lparr>provider = ''unknown'', model = ''mystery-model''\<rparr>
   \<and> parseModelInfo ''a/b/c'' (Some ''zai'') = \<lparr>provider = ''zai'', model = ''a/b/c''\<rparr>"
  using parseModelInfo_precedence [of "''anthropic/claude-opus-4-5''" None]
    parseModelInfo_precedence [of "''gpt-5.2''" None]
    parseModelInfo_precedence [of "''mystery-model''" None]
    parseModelInfo_precedence [of "''a/b/c''" "Some ''zai''"]
  by (simp add: resolve_spec_def resolve_without_provider_def infer_provider_def
      provider_table_def startsWith_def)

text \<open>
  An explicit provider that is the empty string is not used verbatim: the guard
  \<^verbatim>\<open>if (provider)\<close> is false for it and the provider is inferred from the model.
\<close>

theorem parseModelInfo_empty_provider_counterexample:
  "parseModelInfo ''gpt-5.2'' (Some '''') = \<lparr>provider = ''openai'', model = ''gpt-5.2''\<rparr>
   \<and> parseModelInfo ''gpt-5.2'' (Some '''') \<noteq> \<lparr>provider = '''', model = ''gpt-5.2''\<rparr>"
  by (simp add: parseModelInfo_def startsWith_def)

section \<open>Tag extraction\<close>

lemma indexOf_nonneg_iff: "indexOf xs y \<ge> 0 \<longleftrightarrow> y \<in> set xs"
  by (induction xs) (auto simp: Let_def)

lemma indexOf_first:
  "y \<notin> set pre \<Longrightarrow> indexOf (pre @ y # rest) y = int (length pre)"
proof (induction pre)
  case Nil
  then show ?case by simp
next
  case (Cons a pre)
  then show ?case by (auto simp: Let_def)
qed

lemma at_index_after_first:
  "y \<notin> set pre \<Longrightarrow> at_index (pre @ y # v # suf) (indexOf (pre @ y # v # suf) y + 1) = Some v"
  by (simp add: indexOf_first at_index_def nat_add_distrib nth_append)

lemma prompt_tags_shape:
  "t \<in> set (prompt_tags p tgs) \<Longrightarrow> (\<exists>g. t = ''name:'' @ g) \<or> (\<exists>g. t = ''guild:'' @ g)"
  unfolding prompt_tags_def
  apply (cases "truthy_str p \<and> ''cron'' \<in> set tgs"; cases "truthy_str p \<and> ''discord'' \<in> set tgs")
     apply (simp_all only: if_True if_False append_Nil2 append_Nil set_append Un_iff)
    apply (auto split: option.splits if_split_asm)
  done

lemma prompt_tags_set:
  "''cron'' \<notin> set (prompt_tags p tgs)" "''discord'' \<notin> set (prompt_tags p tgs)"
  "''telegram'' \<notin> set (prompt_tags p tgs)" "''slack'' \<notin> set (prompt_tags p tgs)"
  using prompt_tags_shape [of _ p tgs] by fastforce+

lemma prompt_tags_none: "prompt_tags None tgs = []"
  by (simp add: prompt_tags_def)

lemma prompt_tags_other: "''cron'' \<notin> set tgs \<Longrightarrow> ''discord'' \<notin> set tgs \<Longrightarrow> prompt_tags p tgs = []"
  by (simp add: prompt_tags_def)

lemma extractTags_unfold:
  "extractTags sk p =
     (let tgs = source_tags (split_on CHR '':'' sk);
          tags1 =
            (if truthy_str p \<and> ''cron'' \<in> set tgs then
               (case rx_search cron_rx (case p of Some p \<Rightarrow> p | None \<Rightarrow> []) of
                  None \<Rightarrow> tgs
                | Some g \<Rightarrow> if g \<noteq> [] then tgs @ [''name:'' @ trim g] else tgs)
             else tgs);
          tags2 =
            (if truthy_str p \<and> ''discord'' \<in> set tags1 then
               (case rx_search guild_rx (case p of Some p \<Rightarrow> p | None \<Rightarrow> []) of
                  None \<Rightarrow> tags1
                | Some g \<Rightarrow> if g \<noteq> [] then tags1 @ [''guild:'' @ g] else tags1)
             else tags1)
      in tags2)"
  by (simp only: extractTags_def source_tags_def Let_def)

lemma extractTags_eq:
  "extractTags sk p = source_tags (split_on CHR '':'' sk) @ prompt_tags p (source_tags (split_on CHR '':'' sk))"
  unfolding extractTags_unfold prompt_tags_def Let_def
  by (simp split: option.split)


lemma source_tags_cron:
  assumes "''cron'' \<in> set parts"
  shows "''cron'' \<in> set (source_tags parts)" "''discord'' \<notin> set (source_tags parts)"
    "''telegram'' \<notin> set (source_tags parts)" "''slack'' \<notin> set (source_tags parts)"
  using assms by (simp_all add: source_tags_def Let_def)

lemma source_tags_job:
  assumes "parts = pre @ ''cron'' # seg # suf" "''cron'' \<notin> set pre" "seg \<noteq> []"
  shows "''job:'' @ seg \<in> set (source_tags parts)"
  using assms at_index_after_first [of "''cron''" pre seg suf]
  by (simp add: source_tags_def Let_def)

lemma source_tags_discord:
  assumes "''cron'' \<notin> set parts" "''discord'' \<in> set parts"
  shows "''discord'' \<in> set (source_tags parts)" "''cron'' \<notin> set (source_tags parts)"
    "''telegram'' \<notin> set (source_tags parts)" "''slack'' \<notin> set (source_tags parts)"
  using assms by (simp_all add: source_tags_def Let_def)

lemma source_tags_channel:
  assumes "''cron'' \<notin> set parts" "''discord'' \<in> set parts"
    "parts = pre @ ''channel'' # v # suf" "''channel'' \<notin> set pre" "v \<noteq> []"
  shows "''channel:'' @ v \<in> set (source_tags parts)"
proof -
  have "indexOf parts ''channel'' \<ge> 0"
    using assms(3) by (simp add: indexOf_nonneg_iff)
  then show ?thesis
    using assms at_index_after_first [of "''channel''" pre v suf]
    by (simp add: source_tags_def Let_def)
qed

lemma source_tags_rest:
  assumes "''cron'' \<notin> set parts" "''discord'' \<notin> set parts"
  shows "source_tags parts =
     (if ''telegram'' \<in> set parts then [''telegram'']
      else if ''slack'' \<in> set parts then [''slack''] else [])"
    "''cron'' \<notin> set (source_tags parts)" "''discord'' \<notin> set (source_tags parts)"
  using assms by (simp_all add: source_tags_def)

lemma extractTags_cron:
  assumes "''cron'' \<in> set (split_on CHR '':'' sk)"
  shows "''cron'' \<in> set (extractTags sk p) \<and> ''discord'' \<notin> set (extractTags sk p) \<and>
      ''telegram'' \<notin> set (extractTags sk p) \<and> ''slack'' \<notin> set (extractTags sk p)"
  using source_tags_cron [OF assms] by (simp add: extractTags_eq prompt_tags_set)

lemma extractTags_job:
  assumes "split_on CHR '':'' sk = pre @ ''cron'' # seg # suf" "''cron'' \<notin> set pre" "seg \<noteq> []"
  shows "''job:'' @ seg \<in> set (extractTags sk p)"
  using source_tags_job [OF assms] by (simp add: extractTags_eq)

lemma extractTags_discord:
  assumes "''cron'' \<notin> set (split_on CHR '':'' sk)" "''discord'' \<in> set (split_on CHR '':'' sk)"
  shows "''discord'' \<in> set (extractTags sk p) \<and> ''cron'' \<notin> set (extractTags sk p) \<and>
      ''telegram'' \<notin> set (extractTags sk p) \<and> ''slack'' \<notin> set (extractTags sk p)"
  using source_tags_discord [OF assms] by (simp add: extractTags_eq prompt_tags_set)

lemma extractTags_channel:
  assumes "''cron'' \<notin> set (split_on CHR '':'' sk)" "''discord'' \<in> set (split_on CHR '':'' sk)"
    "split_on CHR '':'' sk = pre @ ''channel'' # v # suf" "''channel'' \<notin> set pre" "v \<noteq> []"
  shows "''channel:'' @ v \<in> set (extractTags sk p)"
  using source_tags_channel [OF assms] by (simp add: extractTags_eq)

lemma extractTags_rest:
  assumes "''cron'' \<notin> set (split_on CHR '':'' sk)" "''discord'' \<notin> set (split_on CHR '':'' sk)"
  shows "extractTags sk p =
        (if ''telegram'' \<in> set (split_on CHR '':'' sk) then [''telegram'']
         else if ''slack'' \<in> set (split_on CHR '':'' sk) then [''slack''] else [])"
  using source_tags_rest [OF assms] by (simp add: extractTags_eq prompt_tags_other)

text \<open>
  C9, as the code has it. Tag extraction is a total function of the session key and the
  prompt. With the session key split at its colons: if a segment is \<open>cron\<close>, the
  result contains \<open>cron\<close> and none of \<open>discord\<close>, \<open>telegram\<close>, \<open>slack\<close>, and
  when the segment right after the first \<open>cron\<close> is not empty the result contains
  \<open>job:\<close> followed by that segment; else if a segment is \<open>discord\<close>, the result
  contains \<open>discord\<close> and no other source tag, and when the segment right after the
  first \<open>channel\<close> is not empty the result contains \<open>channel:\<close> followed by it; else
  the result is \<open>telegram\<close> alone, or \<open>slack\<close> alone, or empty, in this order of
  preference. The two examples of the specification hold.
\<close>

theorem extractTags_priority:
  "(''cron'' \<in> set (split_on CHR '':'' sk) \<longrightarrow>
      (''cron'' \<in> set (extractTags sk p) \<and> ''discord'' \<notin> set (extractTags sk p) \<and>
       ''telegram'' \<notin> set (extractTags sk p) \<and> ''slack'' \<notin> set (extractTags sk p)) \<and>
      (\<forall>pre seg suf. split_on CHR '':'' sk = pre @ ''cron'' # seg # suf \<and> ''cron'' \<notin> set pre \<and>
          seg \<noteq> [] \<longrightarrow> ''job:'' @ seg \<in> set (extractTags sk p)))
   \<and> (''cron'' \<notin> set (split_on CHR '':'' sk) \<and> ''discord'' \<in> set (split_on CHR '':'' sk) \<longrightarrow>
      (''discord'' \<in> set (extractTags sk p) \<and> ''cron'' \<notin> set (extractTags sk p) \<and>
       ''telegram'' \<notin> set (extractTags sk p) \<and> ''slack'' \<notin> set (extractTags sk p)) \<and>
      (\<forall>pre v suf. split_on CHR '':'' sk = pre @ ''channel'' # v # suf \<and> ''channel'' \<notin> set pre \<and>
          v \<noteq> [] \<longrightarrow> ''channel:'' @ v \<in> set (extractTags sk p)))
   \<and> (''cron'' \<notin> set (split_on CHR '':'' sk) \<and> ''discord'' \<notin> set (split_on CHR '':'' sk) \<longrightarrow>
      extractTags sk p =
        (if ''telegram'' \<in> set (split_on CHR '':'' sk) then [''telegram'']
         else if ''slack'' \<in> set (split_on CHR '':'' sk) then [''slack''] else []))
   \<and> extractTags ''agent:generalist:cron:96b7'' None = [''cron'', ''job:96b7'']
   \<and> extractTags ''agent:generalist:discord:channel:123'' None = [''discord'', ''channel:123'']"
proof -
  have a: "extractTags ''agent:generalist:cron:96b7'' None = [''cron'', ''job:96b7'']"
    by (simp add: extractTags_def at_index_def)
  have b: "extractTags ''agent:generalist:discord:channel:123'' None = [''discord'', ''channel:123'']"
    by (simp add: extractTags_def at_index_def)
  show ?thesis
    using a b extractTags_cron [of sk p] extractTags_job [of sk _ _ _ p]
      extractTags_discord [of sk p] extractTags_channel [of sk _ _ _ p] extractTags_rest [of sk p]
    by blast
qed

text \<open>The examples of the specification, one with a cron prompt, and a Slack session key.\<close>

theorem extractTags_priority_witness:
  "''cron'' \<in> set (extractTags ''agent:generalist:cron:96b7'' (Some ''[cron:96b7 Nightly sync (0 3 * * *)] run''))
   \<and> ''job:96b7'' \<in> set (extractTags ''agent:generalist:cron:96b7'' (Some ''[cron:96b7 Nightly sync (0 3 * * *)] run''))
   \<and> ''discord'' \<in> set (extractTags ''agent:generalist:discord:channel:123'' None)
   \<and> ''channel:123'' \<in> set (extractTags ''agent:generalist:discord:channel:123'' None)
   \<and> extractTags ''agent:main:slack:C42'' None = [''slack'']"
proof -
  let ?k1 = "''agent:generalist:cron:96b7''" and ?p1 = "Some ''[cron:96b7 Nightly sync (0 3 * * *)] run''"
  let ?k2 = "''agent:generalist:discord:channel:123''"
  let ?k3 = "''agent:main:slack:C42''"
  have s1: "split_on CHR '':'' ?k1 = [''agent'', ''generalist''] @ ''cron'' # ''96b7'' # []"
    by simp
  have s2: "split_on CHR '':'' ?k2 = [''agent'', ''generalist'', ''discord''] @ ''channel'' # ''123'' # []"
    by simp
  have s3: "split_on CHR '':'' ?k3 = [''agent'', ''main'', ''slack'', ''C42'']"
    by simp
  have c1: "''cron'' \<in> set (split_on CHR '':'' ?k1)"
    by simp
  have c2: "''cron'' \<notin> set (split_on CHR '':'' ?k2) \<and> ''discord'' \<in> set (split_on CHR '':'' ?k2)"
    by simp
  have c3: "''cron'' \<notin> set (split_on CHR '':'' ?k3) \<and> ''discord'' \<notin> set (split_on CHR '':'' ?k3)"
    by simp
  have n1: "''cron'' \<notin> set [''agent'', ''generalist'']" and n2: "''channel'' \<notin> set [''agent'', ''generalist'', ''discord'']"
    by simp_all
  have a: "''cron'' \<in> set (extractTags ?k1 ?p1)"
    using extractTags_priority [of ?k1 ?p1] c1 by blast
  have b: "''job:'' @ ''96b7'' \<in> set (extractTags ?k1 ?p1)"
    using extractTags_priority [of ?k1 ?p1] c1 s1 n1 by blast
  have c: "''discord'' \<in> set (extractTags ?k2 None)"
    using extractTags_priority [of ?k2 None] c2 by blast
  have d: "''channel:'' @ ''123'' \<in> set (extractTags ?k2 None)"
    using extractTags_priority [of ?k2 None] c2 s2 n2 by blast
  have e: "extractTags ?k3 None =
        (if ''telegram'' \<in> set (split_on CHR '':'' ?k3) then [''telegram'']
         else if ''slack'' \<in> set (split_on CHR '':'' ?k3) then [''slack''] else [])"
    using extractTags_priority [of ?k3 None] c3 by blast
  have e': "extractTags ?k3 None = [''slack'']"
    unfolding e s3 by simp
  show ?thesis using a b c d e' by simp
qed

text \<open>
  A segment that follows \<open>cron\<close> does not always give a \<open>job:\<close> tag: an empty
  segment gives none (the guard \<^verbatim>\<open>if (parts[cronIdx + 1])\<close> is false for it), and
  only the first \<open>cron\<close> segment is looked at.
\<close>

theorem extractTags_job_counterexample:
  "split_on CHR '':'' ''agent:generalist:cron:'' = [''agent'', ''generalist'', ''cron'', []]
   \<and> extractTags ''agent:generalist:cron:'' None = [''cron'']
   \<and> split_on CHR '':'' ''cron:cron:x'' = [''cron'', ''cron'', ''x'']
   \<and> extractTags ''cron:cron:x'' None = [''cron'', ''job:cron'']"
  by (simp add: extractTags_def at_index_def)

section \<open>Arithmetic on numbers\<close>

lemma pow2_powi: "pow2 e = 2 powi e"
  by (simp add: pow2_def power_int_def inverse_eq_divide power_one_over)

lemma pow2_pos: "0 < pow2 e"
  by (simp add: pow2_def)

lemma pow2_mono: "e \<le> e' \<Longrightarrow> pow2 e \<le> pow2 e'"
  by (simp add: pow2_powi power_int_increasing)

lemma pow2_nat: "0 \<le> e \<Longrightarrow> pow2 e = 2 ^ nat e"
  by (simp add: pow2_def)

lemma find_upto_first:
  "i \<le> k \<Longrightarrow> k \<le> j \<Longrightarrow> P k \<Longrightarrow> (\<forall>l. i \<le> l \<and> l < k \<longrightarrow> \<not> P l) \<Longrightarrow> find P [i..j] = Some k"
proof (induction i j rule: upto.induct)
  case (1 i j)
  show ?case
  proof (cases "i = k")
    case True
    with 1 show ?thesis by (subst upto.simps) simp
  next
    case False
    with 1 have "\<not> P i" "i + 1 \<le> k" "i \<le> j" by auto
    with 1 show ?thesis by (subst upto.simps) simp
  qed
qed

lemma quantum_exp_eq:
  assumes "pow2 e \<le> a" "a < pow2 (e + 1)" "- 1022 \<le> e" "e \<le> 1023"
  shows "quantum_exp a = e - 52"
proof -
  have "pow2 (- 1022) \<le> a" using pow2_mono [OF assms(3)] assms(1) by simp
  moreover have "find (\<lambda>e. a < pow2 (e + 1)) [- 1022 .. 1023] = Some e"
  proof (rule find_upto_first)
    show "\<forall>l. - 1022 \<le> l \<and> l < e \<longrightarrow> \<not> a < pow2 (l + 1)"
    proof (intro allI impI)
      fix l assume "- 1022 \<le> l \<and> l < e"
      then have "pow2 (l + 1) \<le> pow2 e" by (intro pow2_mono) simp
      with assms(1) show "\<not> a < pow2 (l + 1)" by simp
    qed
  qed (use assms in simp_all)
  ultimately show ?thesis by (simp add: quantum_exp_def)
qed

lemma log2_exists:
  fixes n :: nat
  assumes "0 < n"
  shows "\<exists>k. 2 ^ k \<le> n \<and> n < 2 ^ (k + 1)"
  using assms
proof (induction n rule: less_induct)
  case (less n)
  show ?case
  proof (cases "n = 1")
    case True
    then show ?thesis by (intro exI [of _ 0]) simp
  next
    case False
    with less.prems have "0 < n div 2" "n div 2 < n" by auto
    from less.IH [OF this(2) this(1)] obtain k where "2 ^ k \<le> n div 2" "n div 2 < 2 ^ (k + 1)"
      by blast
    then have "2 ^ (k + 1) \<le> n \<and> n < 2 ^ (k + 1 + 1)" by auto
    then show ?thesis by blast
  qed
qed

lemma round_half_even_int: "round_half_even (of_int z) = z"
  by (simp add: round_half_even_def)

lemma to_double_int:
  assumes "\<bar>z\<bar> < 2 ^ 53"
  shows "to_double (of_int z) = Fin (of_int z)"
proof (cases "z = 0")
  case True
  then show ?thesis by (simp add: to_double_def)
next
  case False
  define n where "n = nat \<bar>z\<bar>"
  have n: "0 < n" "int n = \<bar>z\<bar>" "n < 2 ^ 53" using False assms by (auto simp: n_def)
  from log2_exists [OF n(1)] obtain k where k: "2 ^ k \<le> n" "n < 2 ^ (k + 1)" by blast
  have k52: "k \<le> 52"
  proof (rule ccontr)
    assume "\<not> k \<le> 52"
    then have "(2::nat) ^ 53 \<le> 2 ^ k" by (intro power_increasing) simp_all
    with k(1) n(3) show False by simp
  qed
  let ?a = "\<bar>of_int z :: rat\<bar>"
  have a: "?a = of_nat n" using n(2) by (metis of_int_abs of_int_of_nat_eq)
  have lo: "pow2 (int k) \<le> ?a"
    using k(1) by (simp add: a pow2_nat)
  have hi: "?a < pow2 (int k + 1)"
    using k(2) by (simp add: a pow2_nat nat_add_distrib)
      (metis of_nat_less_iff of_nat_numeral of_nat_power power_Suc)
  have g: "quantum_exp ?a = int k - 52"
    using quantum_exp_eq [OF lo hi] k52 by simp
  have p: "pow2 (int k - 52) = 1 / 2 ^ (52 - k)"
    using k52 by (cases "k = 52") (simp_all add: pow2_def nat_diff_distrib')
  have t: "?a / pow2 (int k - 52) = of_int (int n * 2 ^ (52 - k))"
    by (simp add: p a)
  have v: "of_int (round_half_even (?a / pow2 (int k - 52))) * pow2 (int k - 52) = ?a"
    by (simp only: t round_half_even_int) (simp add: p a)
  have "?a < 2 ^ 53" using n(3) by (simp add: a)
  also have "\<dots> \<le> pow2 1024" by (simp add: pow2_def)
  finally have small: "\<not> pow2 1024 \<le> ?a" by simp
  have z0: "(of_int z :: rat) \<noteq> 0" using False by simp
  have "to_double (of_int z) = Fin (if 0 < (of_int z :: rat) then ?a else - ?a)"
    unfolding to_double_def Let_def by (simp only: g v z0 small if_False)
  then show ?thesis by (simp add: abs_if)
qed

lemma js_add_exact:
  assumes "\<bar>a + b\<bar> < 2 ^ 53"
  shows "js_add (Fin (of_int a)) (Fin (of_int b)) = Fin (of_int (a + b))"
  using to_double_int [OF assms] by simp




text \<open>
  Two additions outside the integers below \<open>2^53\<close>. The doubles nearest to 0.1 and 0.2 are
  \<open>3602879701896397 / 2^55\<close> and \<open>3602879701896397 / 2^54\<close>; their sum is rounded to
  \<open>1351079888211149 / 2^52\<close>, which prints as \<^verbatim>\<open>0.30000000000000004\<close>. The largest
  double, \<open>2^1024 - 2^971\<close>, added to itself is \<^verbatim>\<open>Infinity\<close>.
\<close>

lemma js_add_fraction_example:
  "js_add (Fin (3602879701896397 / 36028797018963968)) (Fin (3602879701896397 / 18014398509481984))
     = Fin (1351079888211149 / 4503599627370496)"
proof -
  have s: "(3602879701896397 / 36028797018963968 :: rat) + 3602879701896397 / 18014398509481984
             = 10808639105689191 / 36028797018963968"
    by simp
  have g: "quantum_exp (10808639105689191 / 36028797018963968) = - 2 - 52"
    by (rule quantum_exp_eq) (simp_all add: pow2_def)
  have f: "\<lfloor>10808639105689191 / 2 :: rat\<rfloor> = 5404319552844595"
    by (simp add: floor_eq_iff)
  show ?thesis
    by (simp add: s to_double_def Let_def g round_half_even_def pow2_def f)
qed

lemma find_upto_none: "(\<forall>l. i \<le> l \<and> l \<le> j \<longrightarrow> \<not> P l) \<Longrightarrow> find P [i..j] = None"
  by (simp add: find_None_iff)

lemma quantum_exp_top:
  assumes "pow2 1024 \<le> a"
  shows "quantum_exp a = 971"
proof -
  have "pow2 (- 1022) \<le> pow2 1024" by (rule pow2_mono) simp
  with assms have lo: "\<not> a < pow2 (- 1022)" by simp
  have "find (\<lambda>e. a < pow2 (e + 1)) [- 1022 .. 1023] = None"
  proof (rule find_upto_none, intro allI impI)
    fix l :: int assume "- 1022 \<le> l \<and> l \<le> 1023"
    then have "pow2 (l + 1) \<le> pow2 1024" by (intro pow2_mono) simp
    with assms show "\<not> a < pow2 (l + 1)" by simp
  qed
  with lo show ?thesis by (simp add: quantum_exp_def)
qed

lemma js_add_overflow_example:
  "js_add (Fin (2 ^ 1024 - 2 ^ 971)) (Fin (2 ^ 1024 - 2 ^ 971)) = PInf"
proof -
  let ?s = "2 ^ 1024 - 2 ^ 971 + (2 ^ 1024 - 2 ^ 971) :: rat"
  have e: "?s = (2 ^ 54 - 2) * 2 ^ 971" by simp
  have p: "pow2 1024 \<le> ?s" "0 < ?s" "?s \<noteq> 0" "\<bar>?s\<bar> = ?s" by (simp_all add: pow2_def)
  have g: "quantum_exp ?s = 971" by (rule quantum_exp_top [OF p(1)])
  have t: "?s / pow2 971 = of_int (2 ^ 54 - 2)"
    by (simp only: e) (simp add: pow2_def)
  have v: "of_int (round_half_even (?s / pow2 971)) * pow2 971 = ?s"
    by (simp only: t round_half_even_int) (simp add: pow2_def)
  have "to_double ?s = PInf"
    unfolding to_double_def Let_def by (simp only: p g v if_True if_False)
  then show ?thesis by simp
qed

section \<open>Token usage of a turn\<close>

lemma scan_messages_skip:
  assumes "\<not> carries_usage (ms ! i)"
  shows "scan_messages ms (Suc i) = scan_messages ms i"
  using assms by (auto simp: carries_usage_def Let_def)

lemma scan_messages_hit:
  assumes "carries_usage (ms ! i)"
  shows "scan_messages ms (Suc i) = Some (usage_of_object (get_prop (ms ! i) ''usage''))"
  using assms by (simp add: carries_usage_def Let_def usage_of_object_def usage_field_def)

lemma scan_messages_take:
  "n \<le> length ms \<Longrightarrow>
   scan_messages ms n =
     (let hits = filter carries_usage (take n ms) in
      if hits = [] then None
      else Some (usage_of_object (get_prop (last hits) ''usage'')))"
proof (induction n)
  case 0
  then show ?case by simp
next
  case (Suc n)
  then have t: "take (Suc n) ms = take n ms @ [ms ! n]"
    by (simp add: take_Suc_conv_app_nth)
  show ?case
  proof (cases "carries_usage (ms ! n)")
    case True
    then show ?thesis
      by (simp only: scan_messages_hit [OF True] t) (simp add: Let_def)
  next
    case False
    then show ?thesis using Suc
      by (simp only: scan_messages_skip [OF False] t) (simp add: Let_def)
  qed
qed

lemma extractUsage_last:
  "extractUsageFromMessages messages = map_option usage_of_object (last_assistant_usage messages)"
proof (cases messages)
  case (JArr ms)
  then show ?thesis
    using scan_messages_take [of "length ms" ms]
    by (simp add: last_assistant_usage_def Let_def)
qed (simp_all add: last_assistant_usage_def)

lemma is_integer_count: "is_integer n \<Longrightarrow> n = Fin (of_int (count_of n))"
  by (cases n) (auto simp: is_integer_def count_of_def)

lemma usage_of_object_exact:
  assumes "exact_counts usage"
  shows "usage_of_object usage = as_token_usage (normalize_usage usage)"
proof -
  define ci where "ci = count_of (usage_field usage ''input'')"
  define co where "co = count_of (usage_field usage ''output'')"
  define cr where "cr = count_of (usage_field usage ''cacheRead'')"
  define cw where "cw = count_of (usage_field usage ''cacheWrite'')"
  have f: "usage_field usage ''input'' = Fin (of_int ci)"
          "usage_field usage ''output'' = Fin (of_int co)"
          "usage_field usage ''cacheRead'' = Fin (of_int cr)"
          "usage_field usage ''cacheWrite'' = Fin (of_int cw)"
    using assms by (simp_all add: exact_counts_def ci_def co_def cr_def cw_def is_integer_count)
  have b: "\<bar>ci\<bar> + \<bar>co\<bar> + \<bar>cr\<bar> + \<bar>cw\<bar> < 2 ^ 53"
    using assms by (simp add: exact_counts_def ci_def co_def cr_def cw_def)
  have s1: "js_add (Fin (of_int ci)) (Fin (of_int co)) = Fin (of_int (ci + co))"
    by (rule js_add_exact) (use b in linarith)
  have s2: "js_add (Fin (of_int (ci + co))) (Fin (of_int cr)) = Fin (of_int (ci + co + cr))"
    by (rule js_add_exact) (use b in linarith)
  have s3: "js_add (Fin (of_int (ci + co + cr))) (Fin (of_int cw)) = Fin (of_int (ci + co + cr + cw))"
    by (rule js_add_exact) (use b in linarith)
  have s4: "js_add (Fin (of_int ci)) (Fin (of_int cr)) = Fin (of_int (ci + cr))"
    by (rule js_add_exact) (use b in linarith)
  have s5: "js_add (Fin (of_int (ci + cr))) (Fin (of_int cw)) = Fin (of_int (ci + cr + cw))"
    by (rule js_add_exact) (use b in linarith)
  have n: "normalize_usage usage =
             \<lparr>promptTokens = ci + cr + cw, completionTokens = co,
              totalTokens = ci + cr + cw + co\<rparr>"
    by (simp add: normalize_usage_def Let_def ci_def co_def cr_def cw_def)
  have e: "ci + co + cr + cw = ci + cr + cw + co" by simp
  show ?thesis
    by (simp only: usage_of_object_def f s1 s2 s3 s4 s5 n e as_token_usage_def
        normalized_usage.simps)
qed

lemma endAgentRun_open:
  assumes "activeAgentRuns st sk = Some active"
  shows "endAgentRun t_end st sk messages success usage dur =
           st\<lparr>activeAgentRuns := (activeAgentRuns st)(sk := None),
              sessionModels := (sessionModels st)(sk := None),
              client := updateRun (client st) (runId active)
                (agentRunPatch t_end active (getSessionModelInfo st sk) (getAllSessionModels st sk)
                   sk messages success usage dur)\<rparr>"
  using assms
  by (simp add: endAgentRun_def Let_def getSessionModelInfo_def getAllSessionModels_def)



lemma usage_of_normalized:
  "usagePromptTokens (Some (as_token_usage n)) = Fin (of_int (promptTokens n))"
  "usageCompletionTokens (Some (as_token_usage n)) = Fin (of_int (completionTokens n))"
  "usageTotalTokens (Some (as_token_usage n)) = Fin (of_int (totalTokens n))"
  by (simp_all add: usagePromptTokens_def usageCompletionTokens_def usageTotalTokens_def
      as_token_usage_def or_else_def)





lemma example_open_turn_active:
  "activeAgentRuns example_open_turn ''agent:main:slack:C42'' =
     Some \<lparr>runId = ''6f1c-r1'', traceId = ''6f1c-r1'',
           dottedOrder = makeDottedOrder example_date ''6f1c-r1'' None,
           parentRunId = None, startTime = toISOString example_date, input = None\<rparr>"
  by (simp add: example_open_turn_def on_before_agent_start_def startAgentRun_def Let_def
      session_of_def or_else_def)

lemma example_open_turn_queue:
  "queue (client example_open_turn) \<noteq> [] \<and> length (queue (client example_open_turn)) = 1
      \<and> maxSize (client example_open_turn) = 20"
  by (simp add: example_open_turn_def on_before_agent_start_def startAgentRun_def Let_def
      session_of_def or_else_def new_tracer_def new_client_def createRun_def example_config_def)

lemma example_messages_usage:
  "last_assistant_usage example_messages =
     Some (JObj [(''input'', JNum (Fin 10)), (''output'', JNum (Fin 5)),
                 (''cacheRead'', JNum (Fin 2)), (''cacheWrite'', JNum (Fin 1))])"
  by (simp add: last_assistant_usage_def example_messages_def carries_usage_def Let_def)

lemma example_messages_extracted:
  "extractUsageFromMessages example_messages =
     Some (as_token_usage \<lparr>promptTokens = 13, completionTokens = 5, totalTokens = 18\<rparr>)"
proof -
  have e: "exact_counts (JObj [(''input'', JNum (Fin 10)), (''output'', JNum (Fin 5)),
                 (''cacheRead'', JNum (Fin 2)), (''cacheWrite'', JNum (Fin 1))])"
    by (simp add: exact_counts_def usage_field_def is_integer_def count_of_def)
  have n: "normalize_usage (JObj [(''input'', JNum (Fin 10)), (''output'', JNum (Fin 5)),
                 (''cacheRead'', JNum (Fin 2)), (''cacheWrite'', JNum (Fin 1))]) =
             \<lparr>promptTokens = 13, completionTokens = 5, totalTokens = 18\<rparr>"
    by (simp add: normalize_usage_def usage_field_def count_of_def Let_def)
  show ?thesis
    by (simp add: extractUsage_last example_messages_usage usage_of_object_exact [OF e] n)
qed



section \<open>Closing and opening a turn span\<close>

lemma startAgentRun_client:
  "client (startAgentRun uuid t_start t_order st sk prompt) =
     createRun (client st)
       (agentRunCreate uuid (toISOString t_start) (makeDottedOrder t_order uuid None)
          (extractTags sk (Some prompt)) (projectName (config st)) sk prompt)"
  by (simp add: startAgentRun_def Let_def)

lemma agentRunPatch_error:
  "error (agentRunPatch t_end active mi am sk messages success usage dur)
     = (if success then None else Some ''Agent turn failed'')"
  by (simp add: agentRunPatch_def Let_def empty_run_def)

lemma agentRunPatch_tags:
  "tags (agentRunPatch t_end active mi am sk messages success usage dur)
     = Some (case mi of None \<Rightarrow> []
             | Some m \<Rightarrow> [''provider:'' @ provider m, ''model:'' @ model m])"
  by (simp add: agentRunPatch_def Let_def)

lemma agentRunCreate_tags:
  "tags (agentRunCreate rid stime dorder tgs project sk prompt) = (if tgs = [] then None else Some tgs)"
  by (simp add: agentRunCreate_def)

text \<open>
  C10: for every turn-end event that closes an open turn span, the update record handed to
  the client has the error \<open>Agent turn failed\<close> when the event's \<open>success\<close> is
  falsy, and no error when it is truthy.
\<close>

theorem turn_end_error_field:
  assumes "activeAgentRuns st (session_of ctx) = Some active"
  shows "\<exists>p. client (on_agent_end t_end st ev ctx) = updateRun (client st) (runId active) p \<and>
           error p = (if truthy (ae_success ev) then None else Some ''Agent turn failed'')"
proof -
  let ?sk = "session_of ctx"
  let ?p = "agentRunPatch t_end active (getSessionModelInfo st ?sk) (getAllSessionModels st ?sk)
              ?sk (ae_messages ev) (truthy (ae_success ev))
              (extractUsageFromMessages (ae_messages ev)) (ae_durationMs ev)"
  have "client (on_agent_end t_end st ev ctx) = updateRun (client st) (runId active) ?p"
    by (simp add: on_agent_end_def Let_def endAgentRun_open [OF assms])
  moreover have "error ?p = (if truthy (ae_success ev) then None else Some ''Agent turn failed'')"
    by (rule agentRunPatch_error)
  ultimately show ?thesis by blast
qed

theorem turn_end_error_field_witness:
  "(\<exists>p. client (on_agent_end example_date example_open_turn
                 \<lparr>ae_messages = example_messages, ae_success = JBool False,
                  ae_durationMs = JNum (Fin 1200)\<rparr> (Some ''agent:main:slack:C42''))
          = updateRun (client example_open_turn) ''6f1c-r1'' p \<and>
        error p = Some ''Agent turn failed'') \<and>
   (\<exists>p. client (on_agent_end example_date example_open_turn
                 \<lparr>ae_messages = example_messages, ae_success = JBool True,
                  ae_durationMs = JNum (Fin 1200)\<rparr> (Some ''agent:main:slack:C42''))
          = updateRun (client example_open_turn) ''6f1c-r1'' p \<and>
        error p = None)"
proof -
  have a: "activeAgentRuns example_open_turn (session_of (Some ''agent:main:slack:C42'')) =
     Some \<lparr>runId = ''6f1c-r1'', traceId = ''6f1c-r1'',
           dottedOrder = makeDottedOrder example_date ''6f1c-r1'' None,
           parentRunId = None, startTime = toISOString example_date, input = None\<rparr>"
    by (simp add: session_of_def or_else_def example_open_turn_active)
  show ?thesis
    using turn_end_error_field [OF a, of example_date
        "\<lparr>ae_messages = example_messages, ae_success = JBool False, ae_durationMs = JNum (Fin 1200)\<rparr>"]
      turn_end_error_field [OF a, of example_date
        "\<lparr>ae_messages = example_messages, ae_success = JBool True, ae_durationMs = JNum (Fin 1200)\<rparr>"]
    by simp
qed

section \<open>Tags of a turn span\<close>

lemma getSessionModelInfo_last:
  "getSessionModelInfo st sk =
     (case sessionModels st sk of
        None \<Rightarrow> None
      | Some models \<Rightarrow> if models = [] then None else Some (last models))"
  by (simp add: getSessionModelInfo_def last_conv_nth split: option.split)

text \<open>
  C6, as the code has it. The tags computed by the tag extractor from the session key and
  the turn-start prompt are carried by the create record of the turn span (the record has
  no tags field when the extractor returns none). The update record emitted when the turn
  span closes carries other tags: \<open>provider:\<close> and \<open>model:\<close> of the last identity
  recorded in the session's ledger, or the empty list when the session has no ledger or an
  empty one.
\<close>

theorem turn_span_tags:
  "(truthy_str prompt \<longrightarrow>
      (\<exists>r. client (on_before_agent_start uuid t_start t_order st prompt ctx) = createRun (client st) r \<and>
           tags r = (if extractTags (session_of ctx) prompt = [] then None
                     else Some (extractTags (session_of ctx) prompt)))) \<and>
   (activeAgentRuns st (session_of ctx) = Some active \<longrightarrow>
      (\<exists>p. client (on_agent_end t_end st ev ctx) = updateRun (client st) (runId active) p \<and>
           tags p = Some (case sessionModels st (session_of ctx) of
                            None \<Rightarrow> []
                          | Some models \<Rightarrow>
                              if models = [] then []
                              else [''provider:'' @ provider (last models),
                                    ''model:'' @ model (last models)])))"
proof (intro conjI impI)
  assume t: "truthy_str prompt"
  then obtain s where s: "prompt = Some s" "s \<noteq> []"
    by (cases prompt) auto
  let ?r = "agentRunCreate uuid (toISOString t_start) (makeDottedOrder t_order uuid None)
          (extractTags (session_of ctx) (Some s)) (projectName (config st)) (session_of ctx) s"
  have "client (on_before_agent_start uuid t_start t_order st prompt ctx) = createRun (client st) ?r"
    using s by (simp add: on_before_agent_start_def Let_def startAgentRun_client or_else_def)
  moreover have "tags ?r = (if extractTags (session_of ctx) prompt = [] then None
                     else Some (extractTags (session_of ctx) prompt))"
    using s by (simp add: agentRunCreate_tags)
  ultimately show "\<exists>r. client (on_before_agent_start uuid t_start t_order st prompt ctx) = createRun (client st) r \<and>
           tags r = (if extractTags (session_of ctx) prompt = [] then None
                     else Some (extractTags (session_of ctx) prompt))"
    by blast
next
  assume a: "activeAgentRuns st (session_of ctx) = Some active"
  let ?sk = "session_of ctx"
  let ?p = "agentRunPatch t_end active (getSessionModelInfo st ?sk) (getAllSessionModels st ?sk)
              ?sk (ae_messages ev) (truthy (ae_success ev))
              (extractUsageFromMessages (ae_messages ev)) (ae_durationMs ev)"
  have "client (on_agent_end t_end st ev ctx) = updateRun (client st) (runId active) ?p"
    by (simp add: on_agent_end_def Let_def endAgentRun_open [OF a])
  moreover have "tags ?p = Some (case sessionModels st ?sk of
                            None \<Rightarrow> []
                          | Some models \<Rightarrow>
                              if models = [] then []
                              else [''provider:'' @ provider (last models),
                                    ''model:'' @ model (last models)])"
    by (simp add: agentRunPatch_tags getSessionModelInfo_last split: option.split)
  ultimately show "\<exists>p. client (on_agent_end t_end st ev ctx) = updateRun (client st) (runId active) p \<and>
           tags p = Some (case sessionModels st ?sk of
                            None \<Rightarrow> []
                          | Some models \<Rightarrow>
                              if models = [] then []
                              else [''provider:'' @ provider (last models),
                                    ''model:'' @ model (last models)])"
    by blast
qed

lemma example_cron_turn_active:
  "activeAgentRuns example_cron_turn ''agent:generalist:cron:96b7'' =
     Some \<lparr>runId = ''0a2b-r7'', traceId = ''0a2b-r7'',
           dottedOrder = makeDottedOrder example_date ''0a2b-r7'' None,
           parentRunId = None, startTime = toISOString example_date, input = None\<rparr>"
  by (simp add: example_cron_turn_def on_before_agent_start_def startAgentRun_def Let_def
      session_of_def or_else_def)

lemma example_cron_tags:
  "extractTags ''agent:generalist:cron:96b7'' (Some ''run the nightly job'') = [''cron'', ''job:96b7'']"
  by (simp add: extractTags_def at_index_def cron_rx_def guild_rx_def)

lemma example_cron_turn_ledger:
  "sessionModels example_cron_turn ''agent:generalist:cron:96b7'' = None"
  by (simp add: example_cron_turn_def on_before_agent_start_def startAgentRun_def Let_def
      session_of_def or_else_def new_tracer_def)

lemma example_cron_turn_models_state:
  "activeAgentRuns example_cron_turn_models = activeAgentRuns example_cron_turn"
  "client example_cron_turn_models = client example_cron_turn"
  "sessionModels example_cron_turn_models ''agent:generalist:cron:96b7'' =
     Some [\<lparr>provider = ''openai'', model = ''gpt-5.2''\<rparr>,
           \<lparr>provider = ''anthropic'', model = ''claude-opus-4-5''\<rparr>]"
    by (simp_all add: example_cron_turn_models_def recordLlmCall_def Let_def
        example_cron_turn_ledger parseModelInfo_def startsWith_def)

text \<open>
  The cron turn of the examples: its create record has the extractor's tags. After the
  identities of \<open>gpt-5.2\<close> and \<open>anthropic/claude-opus-4-5\<close> have been recorded for
  its session, in this order, its update record has the tags of the second.
\<close>

theorem turn_span_tags_witness:
  "(\<exists>r. client (on_before_agent_start ''0a2b-r7'' example_date example_date
                 (new_tracer example_config) (Some ''run the nightly job'')
                 (Some ''agent:generalist:cron:96b7''))
          = createRun (client (new_tracer example_config)) r \<and>
        tags r = Some [''cron'', ''job:96b7'']) \<and>
   sessionModels example_cron_turn_models ''agent:generalist:cron:96b7'' =
     Some [\<lparr>provider = ''openai'', model = ''gpt-5.2''\<rparr>,
           \<lparr>provider = ''anthropic'', model = ''claude-opus-4-5''\<rparr>] \<and>
   (\<exists>p. client (on_agent_end example_date example_cron_turn_models
                 \<lparr>ae_messages = example_messages, ae_success = JBool True,
                  ae_durationMs = JNum (Fin 1200)\<rparr> (Some ''agent:generalist:cron:96b7''))
          = updateRun (client example_cron_turn_models) ''0a2b-r7'' p \<and>
        tags p = Some [''provider:anthropic'', ''model:claude-opus-4-5''])"
proof -
  have k: "session_of (Some ''agent:generalist:cron:96b7'') = ''agent:generalist:cron:96b7''"
    by (simp add: session_of_def or_else_def)
  have a: "activeAgentRuns example_cron_turn_models (session_of (Some ''agent:generalist:cron:96b7'')) =
     Some \<lparr>runId = ''0a2b-r7'', traceId = ''0a2b-r7'',
           dottedOrder = makeDottedOrder example_date ''0a2b-r7'' None,
           parentRunId = None, startTime = toISOString example_date, input = None\<rparr>"
    by (simp add: k example_cron_turn_models_state example_cron_turn_active)
  have t: "truthy_str (Some ''run the nightly job'')"
    by simp
  have one: "\<exists>r. client (on_before_agent_start ''0a2b-r7'' example_date example_date
                 (new_tracer example_config) (Some ''run the nightly job'')
                 (Some ''agent:generalist:cron:96b7''))
          = createRun (client (new_tracer example_config)) r \<and>
        tags r = Some [''cron'', ''job:96b7'']"
    using turn_span_tags [of "Some ''run the nightly job''" "''0a2b-r7''" example_date example_date
        "new_tracer example_config" "Some ''agent:generalist:cron:96b7''"] t
    unfolding k example_cron_tags by simp
  have two: "\<exists>p. client (on_agent_end example_date example_cron_turn_models
                 \<lparr>ae_messages = example_messages, ae_success = JBool True,
                  ae_durationMs = JNum (Fin 1200)\<rparr> (Some ''agent:generalist:cron:96b7''))
          = updateRun (client example_cron_turn_models) ''0a2b-r7'' p \<and>
        tags p = Some [''provider:anthropic'', ''model:claude-opus-4-5'']"
    using turn_span_tags [of None "''0a2b-r7''" example_date example_date example_cron_turn_models
        "Some ''agent:generalist:cron:96b7''"
        "\<lparr>runId = ''0a2b-r7'', traceId = ''0a2b-r7'',
           dottedOrder = makeDottedOrder example_date ''0a2b-r7'' None,
           parentRunId = None, startTime = toISOString example_date, input = None\<rparr>" example_date
        "\<lparr>ae_messages = example_messages, ae_success = JBool True, ae_durationMs = JNum (Fin 1200)\<rparr>"] a
    unfolding k example_cron_turn_models_state(3) by simp
  from one two example_cron_turn_models_state(3) show ?thesis by blast
qed

text \<open>
  The update record of the cron turn does not carry the tags that the extractor computes
  from its session key and prompt.
\<close>

theorem turn_end_tags_counterexample:
  "extractTags ''agent:generalist:cron:96b7'' (Some ''run the nightly job'') = [''cron'', ''job:96b7''] \<and>
   op_method (last (queue (client (on_agent_end example_date example_cron_turn
       \<lparr>ae_messages = example_messages, ae_success = JBool True, ae_durationMs = JNum (Fin 1200)\<rparr>
       (Some ''agent:generalist:cron:96b7''))))) = PATCH \<and>
   tags (body (last (queue (client (on_agent_end example_date example_cron_turn
       \<lparr>ae_messages = example_messages, ae_success = JBool True, ae_durationMs = JNum (Fin 1200)\<rparr>
       (Some ''agent:generalist:cron:96b7'')))))) = Some []"
proof -
  have a: "activeAgentRuns example_cron_turn (session_of (Some ''agent:generalist:cron:96b7'')) =
     Some \<lparr>runId = ''0a2b-r7'', traceId = ''0a2b-r7'',
           dottedOrder = makeDottedOrder example_date ''0a2b-r7'' None,
           parentRunId = None, startTime = toISOString example_date, input = None\<rparr>"
    by (simp add: session_of_def or_else_def example_cron_turn_active)
  have g: "getSessionModelInfo example_cron_turn (session_of (Some ''agent:generalist:cron:96b7'')) = None"
    by (simp add: getSessionModelInfo_def session_of_def or_else_def example_cron_turn_ledger)
  have q: "length (queue (client example_cron_turn)) = 1 \<and> maxSize (client example_cron_turn) = 20"
    by (simp add: example_cron_turn_def on_before_agent_start_def startAgentRun_def Let_def
        session_of_def or_else_def new_tracer_def new_client_def createRun_def example_config_def)
  show ?thesis
    using q
    by (simp add: example_cron_tags on_agent_end_def Let_def endAgentRun_open [OF a] updateRun_def
        agentRunPatch_tags g)
qed

section \<open>Parent of a tool span\<close>




lemma endToolRun_open:
  assumes "activeToolRuns st cid = Some active"
  shows "endToolRun t_end st cid res err =
           st\<lparr>activeToolRuns := (activeToolRuns st)(cid := None),
              client := updateRun (client st) (runId active) (toolRunPatch t_end active res err)\<rparr>"
  using assms by (simp add: endToolRun_def Let_def)

lemma example_open_turn_tools: "activeToolRuns example_open_turn = Map.empty"
  by (simp add: example_open_turn_def on_before_agent_start_def startAgentRun_def Let_def
      session_of_def or_else_def new_tracer_def)





section \<open>Unmatched events\<close>

text \<open>
  The events that the handlers ignore. A turn-end event for a session key with no open
  turn span, a tool-end event whose identifier (the stored run identifier, or else
  \<open>toolCallId\<close>) is missing, empty or the key of no entry of \<open>activeToolRuns\<close>, and a
  turn-start event without a prompt each return the tracer unchanged: the three maps, the
  client's queue and the calls in flight are what they were, so no record is produced and
  nothing is sent. The handlers are total functions, so nothing is raised.
\<close>

lemma unmatched_events_are_noops:
  "(activeAgentRuns st (session_of ctx) = None \<longrightarrow> on_agent_end t_end st aev ctx = st) \<and>
   ((case first_some [langsmithToolRunId tev, toolCallId tev] of
       None \<Rightarrow> True
     | Some cid \<Rightarrow> cid = [] \<or> activeToolRuns st cid = None) \<longrightarrow>
      on_after_tool_call t_end st tev = st) \<and>
   (activeToolRuns st cid = None \<longrightarrow> endToolRun t_end st cid res err = st) \<and>
   (\<not> truthy_str prompt \<longrightarrow> on_before_agent_start uuid t_start t_order st prompt ctx = st)"
proof (intro conjI impI)
  assume "activeAgentRuns st (session_of ctx) = None"
  then show "on_agent_end t_end st aev ctx = st"
    by (simp add: on_agent_end_def endAgentRun_def Let_def)
next
  assume a: "case first_some [langsmithToolRunId tev, toolCallId tev] of
       None \<Rightarrow> True
     | Some cid \<Rightarrow> cid = [] \<or> activeToolRuns st cid = None"
  show "on_after_tool_call t_end st tev = st"
  proof (cases "first_some [langsmithToolRunId tev, toolCallId tev]")
    case None
    then show ?thesis by (simp add: on_after_tool_call_def Let_def)
  next
    case (Some c)
    with a have "c = [] \<or> activeToolRuns st c = None" by simp
    then show ?thesis
      using Some by (auto simp: on_after_tool_call_def Let_def endToolRun_def or_else_def)
  qed
next
  assume "activeToolRuns st cid = None"
  then show "endToolRun t_end st cid res err = st"
    by (simp add: endToolRun_def)
next
  assume "\<not> truthy_str prompt"
  then show "on_before_agent_start uuid t_start t_order st prompt ctx = st"
    by (simp add: on_before_agent_start_def Let_def)
qed

text \<open>
  On the tracer with one open Slack turn: a turn end for another session, a tool end for an
  unknown call identifier, and a turn start with an empty prompt.
\<close>

lemma unmatched_events_example:
  "on_agent_end example_date example_open_turn
     \<lparr>ae_messages = example_messages, ae_success = JBool True, ae_durationMs = JNum (Fin 1200)\<rparr>
     (Some ''agent:other'') = example_open_turn \<and>
   on_after_tool_call example_date example_open_turn
     \<lparr>toolName = ''read'', params = JNull, langsmithToolRunId = None,
      toolCallId = Some ''call-17'', result = JStr ''ok'', tool_error = None\<rparr> = example_open_turn \<and>
   endToolRun example_date example_open_turn ''call-17'' (JStr ''ok'') None = example_open_turn \<and>
   on_before_agent_start ''77aa'' example_date example_date example_open_turn (Some '''')
     (Some ''agent:other'') = example_open_turn"
proof -
  have a: "activeAgentRuns example_open_turn (session_of (Some ''agent:other'')) = None"
    by (simp add: example_open_turn_def on_before_agent_start_def startAgentRun_def Let_def
        session_of_def or_else_def new_tracer_def)
  have b: "activeToolRuns example_open_turn ''call-17'' = None"
    by (simp add: example_open_turn_def on_before_agent_start_def startAgentRun_def Let_def
        session_of_def or_else_def new_tracer_def)
  have c: "\<not> truthy_str (Some '''')"
    by simp
  show ?thesis
    using unmatched_events_are_noops [of example_open_turn "Some ''agent:other''" example_date
        "\<lparr>ae_messages = example_messages, ae_success = JBool True, ae_durationMs = JNum (Fin 1200)\<rparr>"
        "\<lparr>toolName = ''read'', params = JNull, langsmithToolRunId = None,
          toolCallId = Some ''call-17'', result = JStr ''ok'', tool_error = None\<rparr>"
        "''call-17''" "JStr ''ok''" None "Some ''''" "''77aa''" example_date example_date]
      a b c
    by simp
qed

lemma example_pending_call_state:
  "activeToolRuns example_pending_call =
     [''llm:e-41'' \<mapsto>
        \<lparr>runId = ''e-41'', traceId = ''e-41'',
         dottedOrder = makeDottedOrder example_date ''e-41'' None, parentRunId = None,
         startTime = toISOString example_date, input = Some ''summarise the notes''\<rparr>]"
  "client example_pending_call = client example_open_turn"
  by (simp_all add: example_pending_call_def on_engram_trace_def traceLlmCall_def
      example_llm_start_event_def Let_def example_open_turn_tools)

text \<open>
  C7 at a concrete run of the hooks. The map \<open>activeToolRuns\<close> holds more than the open
  tool spans: \<open>traceLlmCall\<close> files a started model call in it, under \<open>llm:\<close>
  followed by the trace identifier. On the tracer with one open Slack turn the start of
  the model call \<open>e-41\<close> is handled; no tool call has started, the only entry of the map
  is the pending model call, and the only queued record is the create record of the turn.
  A tool-end event whose \<open>toolCallId\<close> is \<open>llm:e-41\<close> matches no open tool span, yet
  it is not ignored: the state changes, the entry of the model call is removed, and an
  update record for the run \<open>e-41\<close> is queued.
\<close>

theorem tool_end_closes_pending_model_call:
  "dom (activeToolRuns example_pending_call) = {''llm:e-41''} \<and>
   map_option runId (activeToolRuns example_pending_call ''llm:e-41'') = Some ''e-41'' \<and>
   map (\<lambda>b. run_id (body b)) (queue (client example_pending_call)) = [Some ''6f1c-r1''] \<and>
   on_after_tool_call example_later_date example_pending_call
     \<lparr>toolName = ''read_file'', params = JNull, langsmithToolRunId = None,
      toolCallId = Some ''llm:e-41'', result = JStr ''ok'', tool_error = None\<rparr>
     \<noteq> example_pending_call \<and>
   activeToolRuns (on_after_tool_call example_later_date example_pending_call
     \<lparr>toolName = ''read_file'', params = JNull, langsmithToolRunId = None,
      toolCallId = Some ''llm:e-41'', result = JStr ''ok'', tool_error = None\<rparr>) = Map.empty \<and>
   queue (client (on_after_tool_call example_later_date example_pending_call
     \<lparr>toolName = ''read_file'', params = JNull, langsmithToolRunId = None,
      toolCallId = Some ''llm:e-41'', result = JStr ''ok'', tool_error = None\<rparr>)) =
     queue (client example_pending_call) @
       [\<lparr>op_method = PATCH, path = ''/runs/e-41'',
         body = empty_run
           \<lparr>run_id := Some ''e-41'', trace_id := Some ''e-41'',
            dotted_order := Some (makeDottedOrder example_date ''e-41'' None),
            end_time := Some (toISOString example_later_date),
            outputs := Some (JObj [(''result'', JStr ''ok'')])\<rparr>\<rparr>]"
proof -
  let ?ev = "\<lparr>toolName = ''read_file'', params = JNull, langsmithToolRunId = None,
      toolCallId = Some ''llm:e-41'', result = JStr ''ok'', tool_error = None\<rparr>"
  let ?e = "\<lparr>runId = ''e-41'', traceId = ''e-41'',
         dottedOrder = makeDottedOrder example_date ''e-41'' None, parentRunId = None,
         startTime = toISOString example_date, input = Some ''summarise the notes''\<rparr>"
  have a: "activeToolRuns example_pending_call ''llm:e-41'' = Some ?e"
    by (simp add: example_pending_call_state)
  have s: "on_after_tool_call example_later_date example_pending_call ?ev =
             example_pending_call
               \<lparr>activeToolRuns := (activeToolRuns example_pending_call)(''llm:e-41'' := None),
                client := updateRun (client example_pending_call) ''e-41''
                            (toolRunPatch example_later_date ?e (JStr ''ok'') None)\<rparr>"
    by (simp add: on_after_tool_call_def Let_def or_else_def endToolRun_open [OF a])
  have t: "activeToolRuns (on_after_tool_call example_later_date example_pending_call ?ev) = Map.empty"
    by (simp add: s example_pending_call_state)
  have d: "on_after_tool_call example_later_date example_pending_call ?ev \<noteq> example_pending_call"
  proof
    assume "on_after_tool_call example_later_date example_pending_call ?ev = example_pending_call"
    then have "activeToolRuns example_pending_call = Map.empty" using t by simp
    then show False using a by simp
  qed
  have q: "queue (client (on_after_tool_call example_later_date example_pending_call ?ev)) =
     queue (client example_pending_call) @
       [\<lparr>op_method = PATCH, path = ''/runs/e-41'',
         body = empty_run
           \<lparr>run_id := Some ''e-41'', trace_id := Some ''e-41'',
            dotted_order := Some (makeDottedOrder example_date ''e-41'' None),
            end_time := Some (toISOString example_later_date),
            outputs := Some (JObj [(''result'', JStr ''ok'')])\<rparr>\<rparr>]"
    using example_open_turn_queue
    by (simp add: s example_pending_call_state updateRun_def Let_def toolRunPatch_def)
  have m: "dom (activeToolRuns example_pending_call) = {''llm:e-41''}"
    by (simp add: example_pending_call_state)
  have c: "map (\<lambda>b. run_id (body b)) (queue (client example_pending_call)) = [Some ''6f1c-r1'']"
    by (simp add: example_pending_call_state example_open_turn_def on_before_agent_start_def
        startAgentRun_def Let_def session_of_def or_else_def new_tracer_def new_client_def
        createRun_def example_config_def agentRunCreate_def empty_run_def)
  from m a c d t q show ?thesis by simp
qed

section \<open>Flushing the queue\<close>

lemma split_batch_filter:
  "split_batch ops creates updates =
     (creates @ map body (filter (\<lambda>b. op_method b = POST) ops),
      updates @ map body (filter (\<lambda>b. op_method b \<noteq> POST) ops))"
  by (induction ops arbitrary: creates updates) simp_all

lemma batch_nonempty:
  assumes "ops \<noteq> []"
  shows "map body (filter (\<lambda>b. op_method b = POST) ops) \<noteq> [] \<or>
         map body (filter (\<lambda>b. op_method b \<noteq> POST) ops) \<noteq> []"
proof (cases ops)
  case Nil
  with assms show ?thesis by simp
next
  case (Cons b bs)
  then show ?thesis by (cases "op_method b = POST") simp_all
qed

lemma flush_nonempty:
  assumes "queue c \<noteq> []"
  shows "flush c = c\<lparr>queue := [], in_flight := in_flight c @ [batch_of c]\<rparr>"
  using assms batch_nonempty [OF assms]
  by (auto simp: flush_def split_batch_filter batch_of_def Let_def)

lemma flush_empty: "queue c = [] \<Longrightarrow> flush c = c"
  by (simp add: flush_def)

lemma flush_in_flight_prefix:
  "take (length (in_flight c)) (in_flight (flush c)) = in_flight c"
  by (cases "queue c = []") (simp_all add: flush_empty flush_nonempty)

lemma enqueue_in_flight_prefix:
  "take (length (in_flight c)) (in_flight (createRun c r)) = in_flight c"
  "take (length (in_flight c)) (in_flight (updateRun c rid p)) = in_flight c"
  using flush_in_flight_prefix [of "c\<lparr>queue := queue c @ [\<lparr>op_method = POST, path = ''/runs'', body = r\<rparr>]\<rparr>"]
    flush_in_flight_prefix [of "c\<lparr>queue := queue c @ [\<lparr>op_method = PATCH, path = ''/runs/'' @ rid, body = p\<rparr>]\<rparr>"]
  by (simp_all add: createRun_def updateRun_def Let_def)

lemma example_client_queue:
  "queue example_client =
     [\<lparr>op_method = POST, path = ''/runs'',
       body = empty_run\<lparr>run_id := Some ''6f1c-r1'', run_name := Some ''agent_turn''\<rparr>\<rparr>,
      \<lparr>op_method = PATCH, path = ''/runs/6f1c-r1'',
       body = empty_run\<lparr>run_id := Some ''6f1c-r1'', end_time := Some ''later''\<rparr>\<rparr>]"
  "in_flight example_client = []" "maxSize example_client = 20"
  by (simp_all add: example_client_def createRun_def updateRun_def new_client_def Let_def
      example_config_def)

text \<open>
  C8. Flushing an empty queue returns the client unchanged: no call is put in flight.
  Flushing a non-empty queue empties it and puts one call in flight that carries every
  queued record (\<open>batch_of\<close>), all before control returns to the caller, hence before the
  call settles. A record enqueued afterwards goes to the new queue (or, when the size
  limit is 1 or less, into a further call of its own) and the call in flight stays as it
  was. When a call in flight settles, whatever the outcome (a success, a non-success
  response, a rejected request), the queue is left as it is and the call is removed from
  the calls in flight: its batch is not put back.
\<close>

theorem flush_drains_queue:
  "(queue c = [] \<longrightarrow> flush c = c) \<and>
   (queue c \<noteq> [] \<longrightarrow>
      queue (flush c) = [] \<and> in_flight (flush c) = in_flight c @ [batch_of c] \<and>
      queue (createRun (flush c) r) =
        (if 1 < maxSize c then [\<lparr>op_method = POST, path = ''/runs'', body = r\<rparr>] else []) \<and>
      queue (updateRun (flush c) rid p) =
        (if 1 < maxSize c then [\<lparr>op_method = PATCH, path = ''/runs/'' @ rid, body = p\<rparr>] else []) \<and>
      in_flight (createRun (flush c) r) ! length (in_flight c) = batch_of c \<and>
      in_flight (updateRun (flush c) rid p) ! length (in_flight c) = batch_of c) \<and>
   (i < length (in_flight c) \<longrightarrow>
      queue (fst (flush_settled i res c)) = queue c \<and>
      in_flight (fst (flush_settled i res c)) = take i (in_flight c) @ drop (Suc i) (in_flight c))"
proof (intro conjI impI)
  assume "queue c = []"
  then show "flush c = c" by (rule flush_empty)
next
  assume q: "queue c \<noteq> []"
  show "queue (flush c) = []" and f: "in_flight (flush c) = in_flight c @ [batch_of c]"
    by (simp_all add: flush_nonempty [OF q])
  show "queue (createRun (flush c) r) =
        (if 1 < maxSize c then [\<lparr>op_method = POST, path = ''/runs'', body = r\<rparr>] else [])"
    by (simp add: flush_nonempty [OF q] createRun_def Let_def flush_nonempty)
  show "queue (updateRun (flush c) rid p) =
        (if 1 < maxSize c then [\<lparr>op_method = PATCH, path = ''/runs/'' @ rid, body = p\<rparr>] else [])"
    by (simp add: flush_nonempty [OF q] updateRun_def Let_def flush_nonempty)
  have "take (length (in_flight (flush c))) (in_flight (createRun (flush c) r)) ! length (in_flight c)
          = in_flight (flush c) ! length (in_flight c)"
    by (simp only: enqueue_in_flight_prefix)
  then show "in_flight (createRun (flush c) r) ! length (in_flight c) = batch_of c"
    by (simp add: f)
  have "take (length (in_flight (flush c))) (in_flight (updateRun (flush c) rid p)) ! length (in_flight c)
          = in_flight (flush c) ! length (in_flight c)"
    by (simp only: enqueue_in_flight_prefix)
  then show "in_flight (updateRun (flush c) rid p) ! length (in_flight c) = batch_of c"
    by (simp add: f)
next
  assume "i < length (in_flight c)"
  then show "queue (fst (flush_settled i res c)) = queue c"
    and "in_flight (fst (flush_settled i res c)) = take i (in_flight c) @ drop (Suc i) (in_flight c)"
    by (simp_all add: flush_settled_def Let_def)
qed

text \<open>
  A client with nothing queued; a client with one create and one update queued, flushed,
  then given one more record while the call is in flight, then told that the call failed.
\<close>

theorem flush_drains_queue_witness:
  "flush (new_client example_config) = new_client example_config \<and>
   queue (flush example_client) = [] \<and>
   in_flight (flush example_client) = [batch_of example_client] \<and>
   post (batch_of example_client)
     = Some [empty_run\<lparr>run_id := Some ''6f1c-r1'', run_name := Some ''agent_turn''\<rparr>] \<and>
   patch (batch_of example_client)
     = Some [empty_run\<lparr>run_id := Some ''6f1c-r1'', end_time := Some ''later''\<rparr>] \<and>
   queue (createRun (flush example_client) empty_run)
     = [\<lparr>op_method = POST, path = ''/runs'', body = empty_run\<rparr>] \<and>
   in_flight (createRun (flush example_client) empty_run) ! 0 = batch_of example_client \<and>
   queue (fst (flush_settled 0 (Response False 500 None) (createRun (flush example_client) empty_run)))
     = [\<lparr>op_method = POST, path = ''/runs'', body = empty_run\<rparr>] \<and>
   in_flight (fst (flush_settled 0 (Rejected ''timeout'') (createRun (flush example_client) empty_run)))
     = []"
proof -
  let ?c = "createRun (flush example_client) empty_run"
  have e: "queue (new_client example_config) = []"
    by (simp add: new_client_def)
  have n: "queue example_client \<noteq> []"
    by (simp add: example_client_queue)
  have b: "post (batch_of example_client)
     = Some [empty_run\<lparr>run_id := Some ''6f1c-r1'', run_name := Some ''agent_turn''\<rparr>]"
    "patch (batch_of example_client)
     = Some [empty_run\<lparr>run_id := Some ''6f1c-r1'', end_time := Some ''later''\<rparr>]"
    by (simp_all add: batch_of_def example_client_queue)
  have one: "flush (new_client example_config) = new_client example_config"
    using flush_drains_queue [of "new_client example_config"] e by blast
  have two: "queue (flush example_client) = []"
    "in_flight (flush example_client) = [batch_of example_client]"
    "queue ?c = [\<lparr>op_method = POST, path = ''/runs'', body = empty_run\<rparr>]"
    "in_flight ?c ! 0 = batch_of example_client"
    using flush_drains_queue [of example_client empty_run] n
    by (simp_all add: example_client_queue)
  have l: "in_flight ?c = [batch_of example_client]"
    using two(2) by (simp add: createRun_def Let_def example_client_queue flush_nonempty [OF n])
  have three: "queue (fst (flush_settled 0 (Response False 500 None) ?c)) = queue ?c"
    using flush_drains_queue [of ?c _ _ _ 0 "Response False 500 None"] l by simp
  have four: "in_flight (fst (flush_settled 0 (Rejected ''timeout'') ?c)) = []"
    using flush_drains_queue [of ?c _ _ _ 0 "Rejected ''timeout''"] l by simp
  show ?thesis
    using one two three four b by simp
qed

section \<open>The session model ledger\<close>

lemma traceLlmCall_keeps_ledger:
  "sessionModels (traceLlmCall t_start t_end t_order st event) = sessionModels st"
  "activeAgentRuns (traceLlmCall t_start t_end t_order st event) = activeAgentRuns st"
  by (simp_all add: traceLlmCall_def Let_def split: option.split)

lemma recordLlmCall_appends:
  "sessionModels (recordLlmCall st sk mdl prov) sk
     = Some (or_else (sessionModels st sk) [] @ [parseModelInfo mdl prov])"
  by (simp add: recordLlmCall_def Let_def or_else_def)

lemma filter_unseen_set:
  "set (filter_unseen ss seen) = set ss - seen"
  by (induction ss arbitrary: seen) auto

lemma filter_unseen_distinct:
  "distinct (filter_unseen ss seen)"
  by (induction ss arbitrary: seen) (auto simp: filter_unseen_set)

lemma getAllSessionModels_distinct:
  "distinct (getAllSessionModels st sk) \<and>
   set (getAllSessionModels st sk)
     = (\<lambda>m. provider m @ ''/'' @ model m) ` set (or_else (sessionModels st sk) [])"
  by (auto simp: getAllSessionModels_def filter_unseen_distinct filter_unseen_set or_else_def
      split: option.split)

lemma endAgentRun_clears_ledger:
  assumes "activeAgentRuns st sk = Some active"
  shows "sessionModels (endAgentRun t_end st sk messages success usage dur) sk = None"
  by (simp add: endAgentRun_open [OF assms])

lemma recorded_identity_on_close:
  assumes "activeAgentRuns st sk = Some active" and "sessionModels st sk = Some models"
    and "models \<noteq> []"
  shows "\<exists>p. client (endAgentRun t_end st sk messages success usage dur)
               = updateRun (client st) (runId active) p \<and>
             tags p = Some [''provider:'' @ provider (last models), ''model:'' @ model (last models)] \<and>
             sessionModels (endAgentRun t_end st sk messages success usage dur) sk = None"
proof -
  have "getSessionModelInfo st sk = Some (last models)"
    using assms(2,3) by (simp add: getSessionModelInfo_last)
  then have "tags (agentRunPatch t_end active (getSessionModelInfo st sk)
                 (getAllSessionModels st sk) sk messages success usage dur)
        = Some [''provider:'' @ provider (last models), ''model:'' @ model (last models)]"
    by (simp add: agentRunPatch_tags)
  moreover have "client (endAgentRun t_end st sk messages success usage dur)
      = updateRun (client st) (runId active)
          (agentRunPatch t_end active (getSessionModelInfo st sk) (getAllSessionModels st sk)
             sk messages success usage dur)"
    and "sessionModels (endAgentRun t_end st sk messages success usage dur) sk = None"
    by (simp_all add: endAgentRun_open [OF assms(1)])
  ultimately show ?thesis by blast
qed

text \<open>
  C5 at a concrete run of the hooks: a turn is open for the Slack session, a terminal
  model-call event for the model \<open>anthropic/claude-opus-4-5\<close> is handled, then the turn
  ends. The event leaves the ledger of the session empty (the only operation that
  appends to a ledger, \<open>recordLlmCall\<close>, is called by no hook), and the update record of
  the turn carries no identity: its tags are empty and its outputs have no \<open>model\<close>.
\<close>

theorem model_call_event_not_recorded:
  "activeAgentRuns example_open_turn ''agent:main:slack:C42'' \<noteq> None \<and>
   sessionModels (on_engram_trace example_date example_date example_date example_open_turn
                    example_llm_event) ''agent:main:slack:C42'' = None \<and>
   op_method (last (queue (client (on_agent_end example_date
       (on_engram_trace example_date example_date example_date example_open_turn example_llm_event)
       \<lparr>ae_messages = example_messages, ae_success = JBool True, ae_durationMs = JNum (Fin 1200)\<rparr>
       (Some ''agent:main:slack:C42''))))) = PATCH \<and>
   tags (body (last (queue (client (on_agent_end example_date
       (on_engram_trace example_date example_date example_date example_open_turn example_llm_event)
       \<lparr>ae_messages = example_messages, ae_success = JBool True, ae_durationMs = JNum (Fin 1200)\<rparr>
       (Some ''agent:main:slack:C42'')))))) = Some [] \<and>
   map_option (\<lambda>out. get_prop out ''model'')
     (outputs (body (last (queue (client (on_agent_end example_date
       (on_engram_trace example_date example_date example_date example_open_turn example_llm_event)
       \<lparr>ae_messages = example_messages, ae_success = JBool True, ae_durationMs = JNum (Fin 1200)\<rparr>
       (Some ''agent:main:slack:C42''))))))) = Some JUndefined"
proof -
  let ?st = "on_engram_trace example_date example_date example_date example_open_turn example_llm_event"
  have l0: "sessionModels example_open_turn ''agent:main:slack:C42'' = None"
    by (simp add: example_open_turn_def on_before_agent_start_def startAgentRun_def Let_def
        session_of_def or_else_def new_tracer_def)
  have l: "sessionModels ?st ''agent:main:slack:C42'' = None"
    by (simp add: on_engram_trace_def traceLlmCall_keeps_ledger l0)
  have a: "activeAgentRuns ?st (session_of (Some ''agent:main:slack:C42'')) =
     Some \<lparr>runId = ''6f1c-r1'', traceId = ''6f1c-r1'',
           dottedOrder = makeDottedOrder example_date ''6f1c-r1'' None,
           parentRunId = None, startTime = toISOString example_date, input = None\<rparr>"
    by (simp add: on_engram_trace_def traceLlmCall_keeps_ledger session_of_def or_else_def
        example_open_turn_active)
  have g: "getSessionModelInfo ?st (session_of (Some ''agent:main:slack:C42'')) = None"
    "getAllSessionModels ?st (session_of (Some ''agent:main:slack:C42'')) = []"
    by (simp_all add: getSessionModelInfo_def getAllSessionModels_def session_of_def or_else_def l)
  have q: "length (queue (client ?st)) = 2 \<and> maxSize (client ?st) = 20"
    by (simp add: on_engram_trace_def traceLlmCall_def example_llm_event_def
        example_open_turn_def on_before_agent_start_def startAgentRun_def Let_def
        session_of_def or_else_def new_tracer_def new_client_def createRun_def example_config_def)
  have o: "outputs (agentRunPatch example_date
             \<lparr>runId = ''6f1c-r1'', traceId = ''6f1c-r1'',
               dottedOrder = makeDottedOrder example_date ''6f1c-r1'' None,
               parentRunId = None, startTime = toISOString example_date, input = None\<rparr>
             None [] (session_of (Some ''agent:main:slack:C42'')) example_messages True
             (extractUsageFromMessages example_messages) (JNum (Fin 1200)))
        = Some (JObj [(''messages'', example_messages), (''success'', JBool True),
                      (''usage_metadata'', usage_object ''input_tokens'' ''output_tokens'' (Fin 13) (Fin 5) (Fin 18))])"
    by (simp add: agentRunPatch_def Let_def example_messages_extracted usage_of_normalized
        usage_object_def)
  show ?thesis
    using q
    by (simp add: l example_open_turn_active on_agent_end_def Let_def endAgentRun_open [OF a]
        updateRun_def agentRunPatch_tags g o)
qed

section \<open>Ordering keys\<close>

lemma append_less_same_length:
  fixes a b :: "'a :: linorder list"
  assumes "length a = length b"
  shows "a @ r < b @ s \<longleftrightarrow> a < b \<or> a = b \<and> r < s"
  using assms by (induction a b rule: list_induct2) auto

lemma append_less_prefix:
  fixes a :: "'a :: linorder list"
  shows "a @ r < a @ s \<longleftrightarrow> r < s"
  by (simp add: append_less_same_length)

lemma digit_char_less:
  assumes "a < 10" "b < 10"
  shows "digit_char a < digit_char b \<longleftrightarrow> a < b"
  using assms by (simp add: digit_char_def less_char_def)

lemma digit_char_eq:
  assumes "a < 10" "b < 10"
  shows "digit_char a = digit_char b \<longleftrightarrow> a = b"
proof -
  have "digit_char a = digit_char b \<longleftrightarrow>
          (of_char (digit_char a) :: nat) = of_char (digit_char b)"
    by simp
  also have "\<dots> \<longleftrightarrow> a = b"
    using assms by (simp add: digit_char_def)
  finally show ?thesis .
qed

lemma length_fixed_digits [simp]: "length (fixed_digits k n) = k"
  by (induction k arbitrary: n) simp_all

lemma fixed_digits_eq:
  assumes "n < 10 ^ k" "m < 10 ^ k"
  shows "fixed_digits k n = fixed_digits k m \<longleftrightarrow> n = m"
  using assms
proof (induction k arbitrary: n m)
  case 0
  then show ?case by simp
next
  case (Suc k)
  have d: "n div 10 < 10 ^ k" "m div 10 < 10 ^ k"
    using Suc.prems by (simp_all add: less_mult_imp_div_less mult.commute)
  have "fixed_digits (Suc k) n = fixed_digits (Suc k) m \<longleftrightarrow>
          n div 10 = m div 10 \<and> n mod 10 = m mod 10"
    by (simp add: Suc.IH [OF d] digit_char_eq)
  also have "\<dots> \<longleftrightarrow> n = m"
    by (metis div_mult_mod_eq)
  finally show ?case .
qed

lemma fixed_digits_less:
  assumes "n < 10 ^ k" "m < 10 ^ k"
  shows "fixed_digits k n < fixed_digits k m \<longleftrightarrow> n < m"
  using assms
proof (induction k arbitrary: n m)
  case 0
  then show ?case by simp
next
  case (Suc k)
  have d: "n div 10 < 10 ^ k" "m div 10 < 10 ^ k"
    using Suc.prems by (simp_all add: less_mult_imp_div_less mult.commute)
  have "fixed_digits (Suc k) n < fixed_digits (Suc k) m \<longleftrightarrow>
          n div 10 < m div 10 \<or> n div 10 = m div 10 \<and> n mod 10 < m mod 10"
    by (simp add: append_less_same_length Suc.IH [OF d] fixed_digits_eq [OF d] digit_char_less)
  also have "\<dots> \<longleftrightarrow> n < m"
  proof -
    have "n = 10 * (n div 10) + n mod 10" "m = 10 * (m div 10) + m mod 10"
      by simp_all
    moreover have "n mod 10 < 10" "m mod 10 < 10"
      by simp_all
    ultimately show ?thesis by linarith
  qed
  finally show ?case .
qed

lemma digit_char_values:
  "digit_char 0 = CHR ''0''" "digit_char 1 = CHR ''1''" "digit_char 2 = CHR ''2''"
  "digit_char 3 = CHR ''3''" "digit_char 4 = CHR ''4''" "digit_char 5 = CHR ''5''"
  "digit_char 6 = CHR ''6''" "digit_char 7 = CHR ''7''" "digit_char 8 = CHR ''8''"
  "digit_char 9 = CHR ''9''" "digit_char (Suc 0) = CHR ''1''"
  by (rule of_char_eqI [where ?'a = nat], simp add: digit_char_def)+

lemma replicate_2: "replicate 2 c = [c, c]"
  by (simp add: numeral_2_eq_2)

lemma fixed_digits_zero: "fixed_digits k 0 = replicate k CHR ''0''"
  by (induction k) (simp_all add: digit_char_values replicate_append_same)

lemma toString_nat_small: "n < 10 \<Longrightarrow> toString_nat n = [digit_char n]"
  by (subst toString_nat.simps) simp

lemma toString_nat_large:
  "\<not> n < 10 \<Longrightarrow> toString_nat n = toString_nat (n div 10) @ [digit_char (n mod 10)]"
  by (subst toString_nat.simps) simp

lemma toString_nat_fixed:
  assumes "n < 10 ^ k" "0 < k"
  shows "length (toString_nat n) \<le> k \<and>
         replicate (k - length (toString_nat n)) CHR ''0'' @ toString_nat n = fixed_digits k n"
  using assms
proof (induction k arbitrary: n)
  case 0
  then show ?case by simp
next
  case (Suc k)
  show ?case
  proof (cases "n < 10")
    case True
    then show ?thesis
      by (simp add: toString_nat_small fixed_digits_zero)
  next
    case False
    then have k: "0 < k"
      using Suc.prems by (cases k) simp_all
    have d: "n div 10 < 10 ^ k"
      using Suc.prems by (simp add: less_mult_imp_div_less mult.commute)
    from Suc.IH [OF d k] show ?thesis
      by (simp add: toString_nat_large [OF False] Suc_diff_le)
  qed
qed

lemma pad_fixed:
  assumes "n < 10 ^ k" "0 < k"
  shows "pad n k = fixed_digits k n"
  using toString_nat_fixed [OF assms] by (simp add: pad_def padStart_def)

lemma toString_nat_length_lower:
  "10 ^ k \<le> n \<Longrightarrow> k < length (toString_nat n)"
proof (induction k arbitrary: n)
  case 0
  then show ?case by (cases "n < 10") (simp_all add: toString_nat_small toString_nat_large)
next
  case (Suc k)
  have "(10::nat) \<le> 10 ^ Suc k"
    by simp
  with Suc.prems have "\<not> n < 10"
    by linarith
  moreover have "10 ^ k \<le> n div 10"
  proof -
    have "10 * 10 ^ k \<le> n"
      using Suc.prems by simp
    then show ?thesis
      by (metis div_le_mono nonzero_mult_div_cancel_left zero_neq_numeral)
  qed
  ultimately show ?case
    using Suc.IH [of "n div 10"] by (simp add: toString_nat_large)
qed

lemma year_fixed:
  assumes "1000 \<le> y" "y \<le> 9999"
  shows "toString_int y = fixed_digits 4 (nat y)"
proof -
  have u: "nat y < 10 ^ 4" and l: "10 ^ 3 \<le> nat y"
    using assms by simp_all
  have "length (toString_nat (nat y)) = 4"
    using toString_nat_fixed [OF u] toString_nat_length_lower [OF l] by simp
  then show ?thesis
    using toString_nat_fixed [OF u] assms by (simp add: toString_int_def)
qed

lemma formatDottedOrderTime_fixed:
  assumes "wf_date d" "1000 \<le> year d" "year d \<le> 9999"
  shows "formatDottedOrderTime d =
           fixed_digits 4 (nat (year d)) @ fixed_digits 2 (month0 d + 1) @
           fixed_digits 2 (day d) @ ''T'' @ fixed_digits 2 (hours d) @
           fixed_digits 2 (minutes d) @ fixed_digits 2 (seconds d) @
           fixed_digits 3 (millis d) @ ''000Z''"
proof -
  have "month0 d + 1 < 10 ^ 2" "day d < 10 ^ 2" "hours d < 10 ^ 2" "minutes d < 10 ^ 2"
    "seconds d < 10 ^ 2" "millis d < 10 ^ 3"
    using assms(1) by (simp_all add: wf_date_def)
  then show ?thesis
    by (simp add: formatDottedOrderTime_def pad_fixed year_fixed [OF assms(2,3)])
qed

lemma formatDottedOrderTime_less:
  assumes "wf_date a" "wf_date b" "date_before a b" "1000 \<le> year a" "year b \<le> 9999"
  shows "formatDottedOrderTime a < formatDottedOrderTime b"
    and "length (formatDottedOrderTime a) = length (formatDottedOrderTime b)"
proof -
  have y: "year a \<le> year b"
    using assms(3) by (auto simp: date_before_def)
  have ya: "1000 \<le> year a" "year a \<le> 9999" and yb: "1000 \<le> year b" "year b \<le> 9999"
    using assms(4,5) y by simp_all
  have b: "nat (year a) < 10 ^ 4" "nat (year b) < 10 ^ 4"
    "month0 a + 1 < 10 ^ 2" "month0 b + 1 < 10 ^ 2" "day a < 10 ^ 2" "day b < 10 ^ 2"
    "hours a < 10 ^ 2" "hours b < 10 ^ 2" "minutes a < 10 ^ 2" "minutes b < 10 ^ 2"
    "seconds a < 10 ^ 2" "seconds b < 10 ^ 2" "millis a < 10 ^ 3" "millis b < 10 ^ 3"
    using assms(1,2) ya yb by (simp_all add: wf_date_def)
  have n: "nat (year a) < nat (year b) \<longleftrightarrow> year a < year b"
    "nat (year a) = nat (year b) \<longleftrightarrow> year a = year b"
    using ya yb by auto
  show "formatDottedOrderTime a < formatDottedOrderTime b"
    using assms(3)
    unfolding formatDottedOrderTime_fixed [OF assms(1) ya] formatDottedOrderTime_fixed [OF assms(2) yb]
    by (simp only: append_less_same_length length_fixed_digits append_less_prefix
        fixed_digits_less b fixed_digits_eq n date_before_def) auto
  show "length (formatDottedOrderTime a) = length (formatDottedOrderTime b)"
    unfolding formatDottedOrderTime_fixed [OF assms(1) ya] formatDottedOrderTime_fixed [OF assms(2) yb]
    by simp
qed

lemma formatDottedOrderTime_nonempty: "formatDottedOrderTime d \<noteq> []"
  by (simp add: formatDottedOrderTime_def)

lemma makeDottedOrder_nonempty: "makeDottedOrder t rid parent \<noteq> []"
  by (simp add: makeDottedOrder_def Let_def formatDottedOrderTime_nonempty)

lemma makeDottedOrder_child:
  assumes "pk \<noteq> []"
  shows "makeDottedOrder t rid (Some pk)
           = pk @ ''.'' @ formatDottedOrderTime t @ filter (\<lambda>c. c \<noteq> CHR ''-'') rid"
  using assms by (simp add: makeDottedOrder_def Let_def)

text \<open>
  C4, as the code has it. Let \<open>pk\<close> be the ordering key of a parent span (a key made by
  \<open>makeDottedOrder\<close>), and let two children be created with the clock readings \<open>t1\<close>
  and \<open>t2\<close> and the identifiers \<open>id1\<close> and \<open>id2\<close>. Both keys begin with \<open>pk\<close>
  followed by a dot. If \<open>t1\<close> is earlier than \<open>t2\<close> by at least one millisecond and
  the years have four digits, the key of the first child is lexicographically strictly
  less than the key of the second, whatever the two identifiers are.
\<close>

theorem child_keys_ordered:
  assumes "pk = makeDottedOrder t0 id0 pp"
  shows "(wf_date t1 \<and> wf_date t2 \<and> date_before t1 t2 \<and> 1000 \<le> year t1 \<and> year t2 \<le> 9999 \<longrightarrow>
            makeDottedOrder t1 id1 (Some pk) < makeDottedOrder t2 id2 (Some pk)) \<and>
         startsWith (makeDottedOrder t1 id1 (Some pk)) (pk @ ''.'') \<and>
         startsWith (makeDottedOrder t2 id2 (Some pk)) (pk @ ''.'')"
proof (intro conjI impI)
  have ne: "pk \<noteq> []"
    by (simp add: assms makeDottedOrder_nonempty)
  show "startsWith (makeDottedOrder t1 id1 (Some pk)) (pk @ ''.'')"
    and "startsWith (makeDottedOrder t2 id2 (Some pk)) (pk @ ''.'')"
    by (simp_all add: makeDottedOrder_child [OF ne] startsWith_def)
  assume h: "wf_date t1 \<and> wf_date t2 \<and> date_before t1 t2 \<and> 1000 \<le> year t1 \<and> year t2 \<le> 9999"
  then have "formatDottedOrderTime t1 < formatDottedOrderTime t2"
    and "length (formatDottedOrderTime t1) = length (formatDottedOrderTime t2)"
    using formatDottedOrderTime_less [of t1 t2] by simp_all
  then have "formatDottedOrderTime t1 @ filter (\<lambda>c. c \<noteq> CHR ''-'') id1
          < formatDottedOrderTime t2 @ filter (\<lambda>c. c \<noteq> CHR ''-'') id2"
    by (simp add: append_less_same_length)
  then show "makeDottedOrder t1 id1 (Some pk) < makeDottedOrder t2 id2 (Some pk)"
    by (simp only: makeDottedOrder_child [OF ne] append_less_prefix)
qed

text \<open>
  Two children of the example turn created one millisecond apart: the key of the first is
  the smaller one although its identifier is the larger one.
\<close>

theorem child_keys_ordered_witness:
  "makeDottedOrder example_date ''ffff-0001'' (Some example_parent_key)
     < makeDottedOrder example_later_date ''0000-0002'' (Some example_parent_key) \<and>
   startsWith (makeDottedOrder example_date ''ffff-0001'' (Some example_parent_key))
     (example_parent_key @ ''.'') \<and>
   startsWith (makeDottedOrder example_later_date ''0000-0002'' (Some example_parent_key))
     (example_parent_key @ ''.'')"
proof -
  have w: "wf_date example_date \<and> wf_date example_later_date \<and>
      date_before example_date example_later_date \<and>
      1000 \<le> year example_date \<and> year example_later_date \<le> 9999"
    by (simp add: wf_date_def date_before_def example_date_def example_later_date_def)
  show ?thesis
    using child_keys_ordered [OF example_parent_key_def, of example_date example_later_date
        "''ffff-0001''" "''0000-0002''"] w
    by simp
qed

text \<open>
  Two children created at the same reading of the millisecond clock are ordered by their
  identifiers, not by creation; and across the end of the year 9999 the timestamp grows
  by one character, so that the later key is the smaller one.
\<close>

theorem child_keys_same_tick_counterexample:
  "\<not> makeDottedOrder example_date ''b3e0-0001'' (Some example_parent_key)
       < makeDottedOrder example_date ''a1f4-0002'' (Some example_parent_key) \<and>
   wf_date last_ms_of_9999 \<and> wf_date first_ms_of_10000 \<and>
   date_before last_ms_of_9999 first_ms_of_10000 \<and>
   \<not> makeDottedOrder last_ms_of_9999 ''b3e0-0001'' (Some example_parent_key)
       < makeDottedOrder first_ms_of_10000 ''a1f4-0002'' (Some example_parent_key)"
proof -
  have ne: "example_parent_key \<noteq> []"
    by (simp add: example_parent_key_def makeDottedOrder_nonempty)
  have one: "\<not> makeDottedOrder example_date ''b3e0-0001'' (Some example_parent_key)
       < makeDottedOrder example_date ''a1f4-0002'' (Some example_parent_key)"
    by (simp add: makeDottedOrder_child [OF ne] append_less_prefix)
  have t1: "formatDottedOrderTime last_ms_of_9999 = ''99991231T235959999000Z''"
    by (simp add: formatDottedOrderTime_def last_ms_of_9999_def toString_int_def pad_def
        padStart_def toString_nat_large toString_nat_small digit_char_values replicate_2)
  have t2: "formatDottedOrderTime first_ms_of_10000 = ''100000101T000000000000Z''"
    by (simp add: formatDottedOrderTime_def first_ms_of_10000_def toString_int_def pad_def
        padStart_def toString_nat_large toString_nat_small digit_char_values replicate_2)
  have two: "\<not> makeDottedOrder last_ms_of_9999 ''b3e0-0001'' (Some example_parent_key)
       < makeDottedOrder first_ms_of_10000 ''a1f4-0002'' (Some example_parent_key)"
    by (simp add: makeDottedOrder_child [OF ne] append_less_prefix t1 t2)
  have w: "wf_date last_ms_of_9999 \<and> wf_date first_ms_of_10000 \<and>
    date_before last_ms_of_9999 first_ms_of_10000"
    by (simp add: wf_date_def date_before_def last_ms_of_9999_def first_ms_of_10000_def)
  from one two w show ?thesis by simp
qed

end
